theory Spec2Isabelle
  imports Complex_Main
begin

section \<open>Python string primitives\<close>

text \<open>
  Texts are modelled as lists of ASCII characters.  The character classes below are the
  ones Python's \<^verbatim>\<open>str\<close> methods and the \<^verbatim>\<open>re\<close> module use on the ASCII range;
  characters above 127 are treated as caseless symbols that are neither whitespace nor
  word characters.
\<close>

definition isspace :: "char \<Rightarrow> bool" where
  \<comment> \<open>\<^verbatim>\<open>str.isspace\<close> on one character: TAB, LF, VT, FF, CR, FS, GS, RS, US and the blank.\<close>
  "isspace c = (c \<in> set [CHR 0x09, CHR 0x0A, CHR 0x0B, CHR 0x0C, CHR 0x0D,
                           CHR 0x1C, CHR 0x1D, CHR 0x1E, CHR 0x1F, CHR 0x20])"

definition isupper :: "char \<Rightarrow> bool" where
  "isupper c = (let n = (of_char c :: nat) in 65 \<le> n \<and> n \<le> 90)"

definition islower :: "char \<Rightarrow> bool" where
  "islower c = (let n = (of_char c :: nat) in 97 \<le> n \<and> n \<le> 122)"

definition isdigit :: "char \<Rightarrow> bool" where
  "isdigit c = (let n = (of_char c :: nat) in 48 \<le> n \<and> n \<le> 57)"

definition isword :: "char \<Rightarrow> bool" where
  \<comment> \<open>the class \<^verbatim>\<open>\w\<close>\<close>
  "isword c = (isupper c \<or> islower c \<or> isdigit c \<or> c = CHR ''_'')"

definition upper_c :: "char \<Rightarrow> char" where
  "upper_c c = (if islower c then char_of ((of_char c :: nat) - 32) else c)"

definition lower_c :: "char \<Rightarrow> char" where
  "lower_c c = (if isupper c then char_of ((of_char c :: nat) + 32) else c)"

definition lower :: "string \<Rightarrow> string" where
  \<comment> \<open>\<^verbatim>\<open>s.lower()\<close>\<close>
  "lower s = map lower_c s"

definition upper :: "string \<Rightarrow> string" where
  \<comment> \<open>\<^verbatim>\<open>s.upper()\<close>\<close>
  "upper s = map upper_c s"

fun capitalize :: "string \<Rightarrow> string" where
  \<comment> \<open>\<^verbatim>\<open>s.capitalize()\<close>: first character upper case, the rest lower case\<close>
  "capitalize [] = []"
| "capitalize (c # cs) = upper_c c # lower cs"

fun upper_first :: "string \<Rightarrow> string" where
  \<comment> \<open>\<^verbatim>\<open>s[0].upper() + s[1:]\<close> on a non-empty string\<close>
  "upper_first [] = []"
| "upper_first (c # cs) = upper_c c # cs"

definition strip :: "string \<Rightarrow> string" where
  \<comment> \<open>\<^verbatim>\<open>s.strip()\<close>\<close>
  "strip s = rev (dropWhile isspace (rev (dropWhile isspace s)))"

definition blank :: "string \<Rightarrow> bool" where
  \<comment> \<open>\<^verbatim>\<open>not text or not text.strip()\<close>\<close>
  "blank s = (s = [] \<or> strip s = [])"

fun split_acc :: "string \<Rightarrow> string \<Rightarrow> string list" where
  "split_acc w [] = (if w = [] then [] else [w])"
| "split_acc w (c # cs) =
     (if isspace c then (if w = [] then split_acc [] cs else w # split_acc [] cs)
      else split_acc (w @ [c]) cs)"

definition split_ws :: "string \<Rightarrow> string list" where
  \<comment> \<open>\<^verbatim>\<open>s.split()\<close>: the maximal runs of non-whitespace characters\<close>
  "split_ws s = split_acc [] s"

definition starts_with :: "string \<Rightarrow> string \<Rightarrow> bool" where
  \<comment> \<open>\<^verbatim>\<open>s.startswith(p)\<close>, written \<open>starts_with p s\<close>\<close>
  "starts_with p s = (take (length p) s = p)"

definition endswith :: "string \<Rightarrow> string \<Rightarrow> bool" where
  \<comment> \<open>\<^verbatim>\<open>s.endswith(p)\<close>\<close>
  "endswith s p = (length p \<le> length s \<and> drop (length s - length p) s = p)"

fun str_find :: "string \<Rightarrow> string \<Rightarrow> nat option" where
  \<comment> \<open>index of the first occurrence of \<open>sub\<close> in \<open>s\<close>\<close>
  "str_find [] sub = (if sub = [] then Some 0 else None)"
| "str_find (c # cs) sub =
     (if starts_with sub (c # cs) then Some 0 else map_option Suc (str_find cs sub))"

definition py_find :: "string \<Rightarrow> string \<Rightarrow> int" where
  \<comment> \<open>\<^verbatim>\<open>s.find(sub)\<close>: \<open>-1\<close> when there is no occurrence\<close>
  "py_find s sub = (case str_find s sub of None \<Rightarrow> - 1 | Some i \<Rightarrow> int i)"

definition py_find_from :: "string \<Rightarrow> string \<Rightarrow> int \<Rightarrow> int" where
  \<comment> \<open>\<^verbatim>\<open>s.find(sub, start)\<close>: a negative start counts from the end\<close>
  "py_find_from s sub start =
     (let n = int (length s);
          b = (if start < 0 then max 0 (n + start) else start)
      in if b > n then - 1
         else (case str_find (drop (nat b) s) sub of None \<Rightarrow> - 1 | Some i \<Rightarrow> b + int i))"

definition contains :: "string \<Rightarrow> string \<Rightarrow> bool" where
  \<comment> \<open>\<^verbatim>\<open>sub in s\<close>, written \<open>contains s sub\<close>\<close>
  "contains s sub = (str_find s sub \<noteq> None)"

fun replace1 :: "string \<Rightarrow> string \<Rightarrow> string \<Rightarrow> string" where
  \<comment> \<open>\<^verbatim>\<open>s.replace(old, new, 1)\<close>, written \<open>replace1 old new s\<close>\<close>
  "replace1 old new [] = (if old = [] then new else [])"
| "replace1 old new (c # cs) =
     (if starts_with old (c # cs) then new @ drop (length old) (c # cs)
      else c # replace1 old new cs)"

fun replace_skip :: "string \<Rightarrow> string \<Rightarrow> nat \<Rightarrow> string \<Rightarrow> string" where
  "replace_skip old new k [] = []"
| "replace_skip old new (Suc k) (c # cs) = replace_skip old new k cs"
| "replace_skip old new 0 (c # cs) =
     (if starts_with old (c # cs) then new @ replace_skip old new (length old - 1) cs
      else c # replace_skip old new 0 cs)"

definition replace_all :: "string \<Rightarrow> string \<Rightarrow> string \<Rightarrow> string" where
  \<comment> \<open>\<^verbatim>\<open>s.replace(old, new)\<close> for a non-empty \<open>old\<close>: every non-overlapping occurrence,
      left to right\<close>
  "replace_all old new s = replace_skip old new 0 s"

definition count_char :: "char \<Rightarrow> string \<Rightarrow> nat" where
  \<comment> \<open>\<^verbatim>\<open>s.count(c)\<close> for a one-character \<open>c\<close>\<close>
  "count_char c s = length (filter (\<lambda>x. x = c) s)"

definition is_terminal :: "char \<Rightarrow> bool" where
  \<comment> \<open>\<^verbatim>\<open>c in '.!?'\<close>\<close>
  "is_terminal c = (c \<in> set ''.!?'')"

definition is_vowel :: "char \<Rightarrow> bool" where
  \<comment> \<open>\<^verbatim>\<open>c in "aeiou"\<close>\<close>
  "is_vowel c = (c \<in> set ''aeiou'')"

definition sq :: char where
  \<comment> \<open>the apostrophe\<close>
  "sq = CHR 0x27"

definition nl :: char where
  \<comment> \<open>the line feed\<close>
  "nl = CHR 0x0A"

section \<open>The fragment of Python's regular expressions the program uses\<close>

datatype cclass = CWord | CSpace | CAny

fun in_class :: "cclass \<Rightarrow> char \<Rightarrow> bool" where
  "in_class CWord c = isword c"
| "in_class CSpace c = isspace c"
| "in_class CAny c = (c \<noteq> nl)"

datatype regex =
    Lit string            \<comment> \<open>a literal\<close>
  | Rep cclass nat        \<comment> \<open>greedy repetition of a class, at least \<open>n\<close> times\<close>
  | Seq regex regex
  | Alt regex regex
  | Opt regex             \<comment> \<open>\<^verbatim>\<open>(?:r)?\<close>\<close>
  | Grp nat regex         \<comment> \<open>capturing group number \<open>n\<close>\<close>
  | Bnd                   \<comment> \<open>\<^verbatim>\<open>\b\<close>\<close>
  | Bol                   \<comment> \<open>\<^verbatim>\<open>^\<close>\<close>
  | Eol                   \<comment> \<open>\<^verbatim>\<open>$\<close>\<close>

type_synonym mstate = "nat \<times> (nat \<times> string) list"

definition lit_eq :: "bool \<Rightarrow> string \<Rightarrow> string \<Rightarrow> bool" where
  "lit_eq ic a b = (if ic then lower a = lower b else a = b)"

definition word_at :: "string \<Rightarrow> nat \<Rightarrow> bool" where
  "word_at s p = (p < length s \<and> isword (s ! p))"

definition at_boundary :: "string \<Rightarrow> nat \<Rightarrow> bool" where
  "at_boundary s p = ((if p = 0 then False else word_at s (p - 1)) \<noteq> word_at s p)"

definition at_end :: "string \<Rightarrow> nat \<Rightarrow> bool" where
  \<comment> \<open>\<^verbatim>\<open>$\<close> without MULTILINE: the end of the string, or just before a final line feed\<close>
  "at_end s p = (p = length s \<or> (Suc p = length s \<and> s ! p = nl))"

fun rx_run :: "bool \<Rightarrow> string \<Rightarrow> regex \<Rightarrow> mstate \<Rightarrow> mstate list" where
  \<comment> \<open>all the ways the backtracking matcher can match \<open>r\<close> from a position, in the order
      in which it tries them; the first one is the match Python reports\<close>
  "rx_run ic s (Lit l) st =
     (if lit_eq ic (take (length l) (drop (fst st) s)) l then [(fst st + length l, snd st)] else [])"
| "rx_run ic s (Rep c n) st =
     (let k = length (takeWhile (in_class c) (drop (fst st) s))
      in map (\<lambda>j. (fst st + j, snd st)) (rev [n ..< Suc k]))"
| "rx_run ic s (Seq a b) st = concat (map (rx_run ic s b) (rx_run ic s a st))"
| "rx_run ic s (Alt a b) st = rx_run ic s a st @ rx_run ic s b st"
| "rx_run ic s (Opt a) st = rx_run ic s a st @ [st]"
| "rx_run ic s (Grp i a) st =
     map (\<lambda>st'. (fst st', snd st' @ [(i, take (fst st' - fst st) (drop (fst st) s))]))
         (rx_run ic s a st)"
| "rx_run ic s Bnd st = (if at_boundary s (fst st) then [st] else [])"
| "rx_run ic s Bol st = (if fst st = 0 then [st] else [])"
| "rx_run ic s Eol st = (if at_end s (fst st) then [st] else [])"

fun seqs :: "regex list \<Rightarrow> regex" where
  "seqs [] = Lit []"
| "seqs [r] = r"
| "seqs (r # rs) = Seq r (seqs rs)"

fun alts :: "string list \<Rightarrow> regex" where
  \<comment> \<open>\<^verbatim>\<open>a|b|c\<close> over literals\<close>
  "alts [] = Lit []"
| "alts [l] = Lit l"
| "alts (l # ls) = Alt (Lit l) (alts ls)"

definition match_at :: "bool \<Rightarrow> regex \<Rightarrow> string \<Rightarrow> nat \<Rightarrow> mstate option" where
  "match_at ic r s p = (case rx_run ic s r (p, []) of [] \<Rightarrow> None | st # _ \<Rightarrow> Some st)"

definition re_match :: "bool \<Rightarrow> regex \<Rightarrow> string \<Rightarrow> (nat \<times> string) list option" where
  \<comment> \<open>\<^verbatim>\<open>re.match(r, s)\<close>: the groups of the match at position 0, if there is one\<close>
  "re_match ic r s = map_option snd (match_at ic r s 0)"

definition matches :: "regex \<Rightarrow> string \<Rightarrow> bool" where
  "matches r s = (re_match False r s \<noteq> None)"

definition group :: "(nat \<times> string) list \<Rightarrow> nat \<Rightarrow> string option" where
  \<comment> \<open>\<^verbatim>\<open>m.group(i)\<close>; \<open>None\<close> for a group that took no part in the match\<close>
  "group g i = map_of (rev g) i"

definition group_str :: "(nat \<times> string) list \<Rightarrow> nat \<Rightarrow> string" where
  \<comment> \<open>a group that is known to have matched\<close>
  "group_str g i = (case group g i of None \<Rightarrow> [] | Some w \<Rightarrow> w)"

fun search_pos :: "bool \<Rightarrow> regex \<Rightarrow> string \<Rightarrow> nat list \<Rightarrow> bool" where
  "search_pos ic r s [] = False"
| "search_pos ic r s (p # ps) = (if match_at ic r s p \<noteq> None then True else search_pos ic r s ps)"

definition re_search :: "bool \<Rightarrow> regex \<Rightarrow> string \<Rightarrow> bool" where
  \<comment> \<open>whether \<^verbatim>\<open>re.search(r, s)\<close> finds a match\<close>
  "re_search ic r s = search_pos ic r s [0 ..< Suc (length s)]"

record rmatch =
  m_start :: nat
  m_end :: nat
  m_groups :: "(nat \<times> string) list"

fun finditer_pos :: "bool \<Rightarrow> regex \<Rightarrow> string \<Rightarrow> nat \<Rightarrow> nat list \<Rightarrow> rmatch list" where
  \<comment> \<open>\<^verbatim>\<open>re.finditer\<close> for patterns that match no empty string: the start positions are
      visited from left to right, and a position inside the previous match is skipped\<close>
  "finditer_pos ic r s lo [] = []"
| "finditer_pos ic r s lo (p # ps) =
     (if p < lo then finditer_pos ic r s lo ps
      else (case match_at ic r s p of
              None \<Rightarrow> finditer_pos ic r s lo ps
            | Some st \<Rightarrow>
                \<lparr>m_start = p, m_end = fst st, m_groups = snd st\<rparr>
                  # finditer_pos ic r s (max (fst st) (Suc p)) ps))"

definition finditer :: "bool \<Rightarrow> regex \<Rightarrow> string \<Rightarrow> rmatch list" where
  "finditer ic r s = finditer_pos ic r s 0 [0 ..< Suc (length s)]"

definition m_text :: "string \<Rightarrow> rmatch \<Rightarrow> string" where
  \<comment> \<open>\<^verbatim>\<open>m.group()\<close>\<close>
  "m_text s m = take (m_end m - m_start m) (drop (m_start m) s)"

abbreviation "wplus \<equiv> Rep CWord 1"
abbreviation "splus \<equiv> Rep CSpace 1"

section \<open>Data model\<close>

datatype error = IndexError | KeyError

text \<open>
  An error finding is a Python dictionary; the keys that only some findings carry are
  optional fields.
\<close>

record finding =
  f_type :: string
  f_message :: string
  f_sentence :: "string option"
  f_severity :: string
  f_suggestion :: "string option"
  f_start :: "int option"
  f_end :: "int option"
  f_text :: "string option"
  f_correction :: "string option"

definition structure_finding :: "string \<Rightarrow> string \<Rightarrow> string \<Rightarrow> string \<Rightarrow> string \<Rightarrow> finding" where
  \<comment> \<open>the findings of the rule-based structure analysis: type, message, sentence, severity, suggestion\<close>
  "structure_finding t m s sev sug =
     \<lparr>f_type = t, f_message = m, f_sentence = Some s, f_severity = sev, f_suggestion = Some sug,
      f_start = None, f_end = None, f_text = None, f_correction = None\<rparr>"

definition span_finding :: "string \<Rightarrow> string \<Rightarrow> string \<Rightarrow> int \<Rightarrow> int \<Rightarrow> string \<Rightarrow> string \<Rightarrow> string \<Rightarrow> finding" where
  \<comment> \<open>the findings of the parser-based structure analysis, which also carry a span and its text\<close>
  "span_finding t m s a b txt sev sug =
     \<lparr>f_type = t, f_message = m, f_sentence = Some s, f_severity = sev, f_suggestion = Some sug,
      f_start = Some a, f_end = Some b, f_text = Some txt, f_correction = None\<rparr>"

definition lexical_finding :: "string \<Rightarrow> string \<Rightarrow> int \<Rightarrow> int \<Rightarrow> string \<Rightarrow> string \<Rightarrow> string \<Rightarrow> finding" where
  \<comment> \<open>the findings of \<^verbatim>\<open>detect_grammar_errors\<close>: type, message, start, end, text, correction, severity\<close>
  "lexical_finding t m a b txt cor sev =
     \<lparr>f_type = t, f_message = m, f_sentence = None, f_severity = sev, f_suggestion = None,
      f_start = Some a, f_end = Some b, f_text = Some txt, f_correction = Some cor\<rparr>"

definition suggestion_of :: "finding \<Rightarrow> string" where
  \<comment> \<open>\<^verbatim>\<open>error.get("suggestion", "")\<close>\<close>
  "suggestion_of e = (case f_suggestion e of None \<Rightarrow> [] | Some s \<Rightarrow> s)"

definition start_key :: "finding \<Rightarrow> int" where
  \<comment> \<open>\<^verbatim>\<open>x.get("start", 0)\<close>\<close>
  "start_key e = (case f_start e of None \<Rightarrow> 0 | Some i \<Rightarrow> i)"

definition sort_desc :: "finding list \<Rightarrow> finding list" where
  \<comment> \<open>\<^verbatim>\<open>sorted(errors, key=start, reverse=True)\<close>: descending, and stable as Python's sort is\<close>
  "sort_desc es = sort_key (\<lambda>e. - start_key e) es"

record change =
  c_type :: string
  c_original :: string
  c_corrected :: string
  c_errors_fixed :: "string list option"
  c_message :: "string option"

definition structure_change :: "string \<Rightarrow> string \<Rightarrow> string list \<Rightarrow> change" where
  "structure_change orig cor fixed =
     \<lparr>c_type = ''structure_correction'', c_original = orig, c_corrected = cor,
      c_errors_fixed = Some fixed, c_message = None\<rparr>"

definition message_change :: "string \<Rightarrow> string \<Rightarrow> string \<Rightarrow> string \<Rightarrow> change" where
  "message_change t orig cor msg =
     \<lparr>c_type = t, c_original = orig, c_corrected = cor, c_errors_fixed = None, c_message = Some msg\<rparr>"

record correction =
  k_original :: string
  k_corrected :: string
  k_errors :: "string list"

text \<open>A token of the optional syntactic parser: text, part of speech, dependency role, char offset.\<close>

record sp_token =
  tok_text :: string
  tok_pos :: string
  tok_dep :: string
  tok_idx :: nat

datatype gmodel =
    Pipeline "string \<Rightarrow> string option"
  | Manual "string \<Rightarrow> string option"

text \<open>
  The libraries and services the program calls are parameters of the model.  A tokenizer,
  tagger or spelling corrector is a total function.  A generating model maps its prompt to
  the generated text, or to \<open>None\<close> when the call raises or returns no result.
  \<^item> \<open>nlp\<close> is the parser both modules load (\<open>None\<close> when it is not installed);
  \<^item> \<open>corrector\<close> is the text-to-text pipeline of \<^verbatim>\<open>grammar_analysis\<close>;
  \<^item> \<open>grammar_model\<close> is what \<^verbatim>\<open>load_grammar_model\<close> obtains: the pipeline, the manually
    loaded tokenizer and model, or nothing;
  \<^item> \<open>client\<close> is the chat-completion client \<^verbatim>\<open>get_client\<close> creates (\<open>None\<close> when its
    creation fails), called with the system prompt, the prompt, \<open>max_tokens\<close> and the
    temperature, and giving the content of the first choice.
\<close>

record env =
  sent_tokenize :: "string \<Rightarrow> string list"
  word_tokenize :: "string \<Rightarrow> string list"
  pos_tag :: "string list \<Rightarrow> (string \<times> string) list"
  textblob_correct :: "string \<Rightarrow> string"
  nlp :: "(string \<Rightarrow> sp_token list) option"
  corrector :: "(string \<Rightarrow> string option) option"
  TRANSFORMERS_AVAILABLE :: bool
  grammar_model :: "gmodel option"
  OPENAI_AVAILABLE :: bool
  API_KEY :: string
  client :: "(string option \<Rightarrow> string \<Rightarrow> nat \<Rightarrow> rat \<Rightarrow> string option) option"

section \<open>Sentence normalization\<close>

fun cap_first :: "string \<Rightarrow> string" where
  \<comment> \<open>\<^verbatim>\<open>if not s[0].isupper(): s = s[0].upper() + s[1:]\<close>\<close>
  "cap_first [] = []"
| "cap_first (c # cs) = (if isupper c then c # cs else upper_c c # cs)"

definition add_period :: "string \<Rightarrow> string" where
  \<comment> \<open>\<^verbatim>\<open>if s[-1] not in '.!?': s = s + '.'\<close>\<close>
  "add_period s = (if s = [] then s else if is_terminal (last s) then s else s @ ''.'')"

definition ensure_dot :: "string \<Rightarrow> string" where
  \<comment> \<open>\<^verbatim>\<open>if not s.endswith('.'): s += '.'\<close>\<close>
  "ensure_dot s = (if endswith s ''.'' then s else s @ ''.'')"

definition normalize_text :: "string \<Rightarrow> string" where
  \<comment> \<open>strip, capitalize the first letter, end with punctuation; an empty string is left alone\<close>
  "normalize_text c = (if c = [] then c else add_period (cap_first (strip c)))"

section \<open>Structural analyzer (\<^verbatim>\<open>sentence_structure.py\<close>)\<close>

subsection \<open>The patterns\<close>

definition rx_i_x_name :: regex where
  \<comment> \<open>\<^verbatim>\<open>^i\s+(\w+)\s+name\<close>\<close>
  "rx_i_x_name = seqs [Bol, Lit ''i'', splus, Grp 1 wplus, splus, Lit ''name'']"

definition rx_x_name :: regex where
  \<comment> \<open>\<^verbatim>\<open>^(\w+)\s+name$\<close>\<close>
  "rx_x_name = seqs [Bol, Grp 1 wplus, splus, Lit ''name'', Eol]"

definition rx_name_x :: regex where
  \<comment> \<open>\<^verbatim>\<open>^name\s+(\w+)$\<close>\<close>
  "rx_name_x = seqs [Bol, Lit ''name'', splus, Grp 1 wplus, Eol]"

definition rx_name_x_i :: regex where
  \<comment> \<open>\<^verbatim>\<open>^name\s+\w+\s+i$\<close>\<close>
  "rx_name_x_i = seqs [Bol, Lit ''name'', splus, wplus, splus, Lit ''i'', Eol]"

definition rx_x_name_i :: regex where
  \<comment> \<open>\<^verbatim>\<open>^\w+\s+name\s+i$\<close>\<close>
  "rx_x_name_i = seqs [Bol, wplus, splus, Lit ''name'', splus, Lit ''i'', Eol]"

definition rx_x_am_i :: regex where
  \<comment> \<open>\<^verbatim>\<open>^(\w+)\s+am\s+i$\<close>\<close>
  "rx_x_am_i = seqs [Bol, Grp 1 wplus, splus, Lit ''am'', splus, Lit ''i'', Eol]"

definition rx_i_am_x :: regex where
  \<comment> \<open>\<^verbatim>\<open>^i\s+am\s+(\w+)$\<close>\<close>
  "rx_i_am_x = seqs [Bol, Lit ''i'', splus, Lit ''am'', splus, Grp 1 wplus, Eol]"

definition rx_det_x_is_y :: regex where
  \<comment> \<open>\<^verbatim>\<open>^(the|a|an|this|that|my|your|his|her|its|our|their)\s+\w+\s+is\s+(\w+)$\<close>\<close>
  "rx_det_x_is_y =
     seqs [Bol, Grp 1 (alts [''the'', ''a'', ''an'', ''this'', ''that'', ''my'', ''your'', ''his'',
                             ''her'', ''its'', ''our'', ''their'']),
           splus, wplus, splus, Lit ''is'', splus, Grp 2 wplus, Eol]"

definition rx_inf2 :: "string \<Rightarrow> regex" where
  \<comment> \<open>\<^verbatim>\<open>^i\s+{verb}\s+(\w+)\s+(\w+)$\<close>\<close>
  "rx_inf2 v = seqs [Bol, Lit ''i'', splus, Lit v, splus, Grp 1 wplus, splus, Grp 2 wplus, Eol]"

definition rx_inf1 :: "string \<Rightarrow> regex" where
  \<comment> \<open>\<^verbatim>\<open>^i\s+{verb}\s+(\w+)$\<close>\<close>
  "rx_inf1 v = seqs [Bol, Lit ''i'', splus, Lit v, splus, Grp 1 wplus, Eol]"

definition rx_inf :: "string \<Rightarrow> regex" where
  \<comment> \<open>\<^verbatim>\<open>^i\s+{verb}\s+(\w+)(?:\s+(\w+))?$\<close>\<close>
  "rx_inf v = seqs [Bol, Lit ''i'', splus, Lit v, splus, Grp 1 wplus,
                    Opt (Seq splus (Grp 2 wplus)), Eol]"

definition infinitive_verbs :: "string list" where
  "infinitive_verbs = [''like'', ''want'', ''need'', ''try'', ''start'', ''begin'', ''love'', ''hate'',
                       ''prefer'', ''decide'', ''plan'', ''hope'', ''expect'']"

definition common_verbs :: "string list" where
  "common_verbs = [''play'', ''read'', ''write'', ''go'', ''come'', ''see'', ''watch'', ''eat'', ''drink'',
                   ''buy'', ''sell'', ''make'', ''do'', ''take'', ''give'', ''get'', ''have'', ''learn'',
                   ''study'', ''work'']"

definition my_name_is :: "string \<Rightarrow> string" where
  \<comment> \<open>\<^verbatim>\<open>f"My name is {name.capitalize()}."\<close>\<close>
  "my_name_is name = ''My name is '' @ capitalize name @ ''.''"

definition other_part :: "string \<Rightarrow> string option" where
  \<comment> \<open>the first blank-separated part of the lowered text that is neither \<open>name\<close> nor \<open>i\<close>\<close>
  "other_part low = List.find (\<lambda>p. p \<notin> set [''name'', ''i'']) (split_ws low)"

subsection \<open>Rule-based detection\<close>

fun infinitive_scan :: "string list \<Rightarrow> string \<Rightarrow> string \<Rightarrow> finding list" where
  \<comment> \<open>the loop over \<^verbatim>\<open>infinitive_verbs\<close>, left at the first finding\<close>
  "infinitive_scan [] low sentence = []"
| "infinitive_scan (v # vs) low sentence =
     (case re_match True (rx_inf v) low of
        None \<Rightarrow> infinitive_scan vs low sentence
      | Some g \<Rightarrow>
          (let first_word = group_str g 1; second_word = group g 2
           in if lower first_word \<in> set common_verbs
                 \<or> first_word \<notin> set [''the'', ''a'', ''an'', ''my'', ''your'', ''this'', ''that'', ''it'',
                                        ''music'', ''food'', ''books'']
              then (case second_word of
                      Some w \<Rightarrow>
                        (if w \<noteq> [] then
                           [structure_finding ''missing_infinitive''
                              (''Missing 'to' before verb after '' @ [sq] @ v @ [sq]) sentence ''medium''
                              (''I '' @ v @ '' to '' @ first_word @ '' '' @ w)]
                         else
                           [structure_finding ''missing_infinitive''
                              (''Missing 'to' before verb after '' @ [sq] @ v @ [sq]) sentence ''medium''
                              (''I '' @ v @ '' to '' @ first_word)])
                    | None \<Rightarrow>
                        [structure_finding ''missing_infinitive''
                           (''Missing 'to' before verb after '' @ [sq] @ v @ [sq]) sentence ''medium''
                           (''I '' @ v @ '' to '' @ first_word)])
              else infinitive_scan vs low sentence))"

definition rulebased :: "string list \<Rightarrow> string \<Rightarrow> error + finding list" where
  \<comment> \<open>the body of \<^verbatim>\<open>detect_structure_errors_rulebased\<close>, given the tokens of the lowered
      sentence; \<^verbatim>\<open>words[0]\<close> raises when there is no token\<close>
  "rulebased words sentence =
     (let low = lower sentence;
          e_fragment =
            (if length words < 3 then
               [structure_finding ''sentence_fragment'' ''Sentence appears incomplete'' sentence ''high''
                  ''Complete the sentence with a subject and verb'']
             else []);
          e_i_x_name =
            (if matches rx_i_x_name low then
               [structure_finding ''word_order''
                  ''Incorrect sentence structure. Use 'My name is [name]' format'' sentence ''high''
                  ''My name is [name]'']
             else []);
          e_x_name =
            (if matches rx_x_name low \<and> length words = 2 then
               [structure_finding ''missing_words'' ''Missing words. Use 'My name is [name]' format''
                  sentence ''high'' (''My name is '' @ capitalize (words ! 0))]
             else []);
          e_name_x =
            (if matches rx_name_x low \<and> length words = 2 then
               [structure_finding ''word_order'' ''Incorrect word order. Use 'My name is [name]' format''
                  sentence ''high'' (''My name is '' @ capitalize (words ! 1))]
             else []);
          e_name_i =
            (if re_match True rx_name_x_i low \<noteq> None \<or> re_match True rx_x_name_i low \<noteq> None then
               (case other_part low of
                  None \<Rightarrow> []
                | Some name \<Rightarrow>
                    (if name \<noteq> [] then
                       [structure_finding ''word_order''
                          ''Incorrect word order. Use 'My name is [name]' format'' sentence ''high''
                          (''My name is '' @ capitalize name)]
                     else []))
             else []);
          e_am_i =
            (if re_match True rx_x_am_i low \<noteq> None then
               (case split_ws low of
                  [] \<Rightarrow> []
                | name # _ \<Rightarrow>
                    (if name \<noteq> [] \<and> name \<notin> set [''i'', ''am''] then
                       [structure_finding ''word_order''
                          ''Incorrect word order. Use 'My name is [name]' or 'I am [name]' format''
                          sentence ''high'' (''My name is '' @ capitalize name)]
                     else []))
             else [])
      in case words of
           [] \<Rightarrow> Inl IndexError
         | w0 # ws \<Rightarrow>
            (let e_verb =
                   (if w0 \<in> set [''i'', ''you'', ''he'', ''she'', ''it'', ''we'', ''they''] \<and> length words > 1
                    then (if words ! 1 \<notin> set [''am'', ''is'', ''are'', ''was'', ''were'', ''have'', ''has'',
                                                ''had'', ''will'', ''can'', ''should'', ''would'', ''could'']
                          then (if length words > 2 then
                                  [structure_finding ''missing_verb'' ''Missing verb after subject''
                                     sentence ''medium''
                                     ''Add a verb like 'is', 'am', 'are', 'have', etc.'']
                                else [])
                          else [])
                    else []);
                 e_article =
                   (case re_match True rx_i_am_x low of
                      None \<Rightarrow> []
                    | Some g \<Rightarrow>
                       (case group_str g 1 of
                          [] \<Rightarrow> []
                        | c # cs \<Rightarrow>
                           (if islower c \<and> c # cs \<notin> set [''ok'', ''fine'', ''good'', ''well'', ''here'', ''there'']
                            then
                              [structure_finding ''missing_article''
                                 ''Missing article 'a' or 'an' before the noun'' sentence ''medium''
                                 (if \<not> is_vowel (lower_c c) then ''I am a '' @ c # cs
                                  else ''I am an '' @ c # cs)]
                            else [])));
                 e_det =
                   (case re_match True rx_det_x_is_y low of
                      None \<Rightarrow> []
                    | Some g \<Rightarrow>
                       (case group_str g 2 of
                          [] \<Rightarrow> []
                        | c # cs \<Rightarrow>
                           (if islower c \<and> c # cs \<notin> set [''good'', ''bad'', ''fine'', ''ok'', ''here'', ''there'',
                                                          ''mine'', ''yours'']
                            then
                              [structure_finding ''missing_article_or_preposition''
                                 (''Consider adding 'a/an' or a preposition like 'on', 'in', 'at'' @ [sq])
                                 sentence ''low''
                                 (if \<not> is_vowel (lower_c c) then sentence @ '' a '' @ c # cs
                                  else sentence @ '' an '' @ c # cs)]
                            else [])));
                 e_like =
                   (if \<not> matches (rx_inf2 ''like'') low then
                      (case re_match True (rx_inf1 ''like'') low of
                         None \<Rightarrow> []
                       | Some g \<Rightarrow>
                          (let verb = group_str g 1
                           in if verb \<notin> set [''it'', ''this'', ''that'', ''you'', ''him'', ''her'', ''them'',
                                               ''music'', ''food'']
                              then
                                [structure_finding ''missing_infinitive''
                                   ''Missing 'to' before verb or use '-ing' form'' sentence ''medium''
                                   (''I like to '' @ verb)]
                              else []))
                    else [])
             in Inr (e_fragment @ e_i_x_name @ e_x_name @ e_name_x @ e_name_i @ e_am_i @ e_verb
                     @ e_article @ e_det @ e_like @ infinitive_scan infinitive_verbs low sentence)))"

definition detect_structure_errors_rulebased :: "env \<Rightarrow> string \<Rightarrow> error + finding list" where
  "detect_structure_errors_rulebased env sentence =
     rulebased (word_tokenize env (lower sentence)) sentence"

subsection \<open>Parser-based detection\<close>

fun detect_word_order_errors :: "sp_token list \<Rightarrow> string \<Rightarrow> finding list" where
  \<comment> \<open>every token \<open>i\<close> whose second successor is \<open>name\<close>\<close>
  "detect_word_order_errors (t # t1 # t2 # ts) sentence =
     (if lower (tok_text t) = ''i'' \<and> lower (tok_text t2) = ''name'' then
        [span_finding ''word_order'' (''Incorrect word order. Use 'My name is [name]'' @ [sq]) sentence
           (int (tok_idx t)) (int (tok_idx t2 + length (tok_text t2)))
           (tok_text t @ '' '' @ tok_text t1 @ '' '' @ tok_text t2) ''high''
           (''My name is '' @ tok_text t1)]
      else [])
     @ detect_word_order_errors (t1 # t2 # ts) sentence"
| "detect_word_order_errors ts sentence = []"

fun missing_articles_from :: "sp_token option \<Rightarrow> sp_token list \<Rightarrow> string \<Rightarrow> error + finding list" where
  \<comment> \<open>the loop of \<^verbatim>\<open>detect_missing_articles\<close>, with the previous token;
      \<^verbatim>\<open>token.text[0]\<close> raises on a noun with an empty text\<close>
  "missing_articles_from prev [] sentence = Inr []"
| "missing_articles_from prev (t # ts) sentence =
     (if tok_pos t = ''NOUN'' then
        (case tok_text t of
           [] \<Rightarrow> Inl IndexError
         | c # cs \<Rightarrow>
            (case missing_articles_from (Some t) ts sentence of
               Inl x \<Rightarrow> Inl x
             | Inr rest \<Rightarrow>
                Inr ((if \<not> isupper c then
                        (case prev of
                           None \<Rightarrow> []
                         | Some p \<Rightarrow>
                            (if tok_pos p \<notin> set [''DET'', ''ADJ'']
                                \<and> lower (tok_text p) \<notin> set [''a'', ''an'', ''the'', ''my'', ''your'', ''his'',
                                                             ''her'', ''its'', ''our'', ''their'']
                                \<and> tok_pos p \<notin> set [''VERB'', ''ADP'']
                             then
                               [span_finding ''missing_article''
                                  (''Consider adding an article (a/an/the) before '' @ [sq] @ tok_text t @ [sq])
                                  sentence (int (tok_idx t)) (int (tok_idx t + length (tok_text t)))
                                  (tok_text t) ''low''
                                  (if \<not> is_vowel (lower_c c) then ''the '' @ tok_text t
                                   else ''an '' @ tok_text t)]
                             else []))
                      else []) @ rest)))
      else missing_articles_from (Some t) ts sentence)"

definition detect_missing_articles :: "sp_token list \<Rightarrow> string \<Rightarrow> error + finding list" where
  "detect_missing_articles doc sentence = missing_articles_from None doc sentence"

definition rx_collocation :: "string list \<Rightarrow> regex" where
  \<comment> \<open>\<^verbatim>\<open>\b(w1|w2|...)\s+(\w+)\b\<close>\<close>
  "rx_collocation ws = seqs [Bnd, Grp 1 (alts ws), splus, Grp 2 wplus, Bnd]"

definition rx_prep_before :: "string \<Rightarrow> string \<Rightarrow> regex" where
  \<comment> \<open>\<^verbatim>\<open>\b{prep}\s+{word_after}\<close>\<close>
  "rx_prep_before prep word_after = seqs [Bnd, Lit prep, splus, Lit word_after]"

definition preposition_findings :: "string list \<Rightarrow> string \<Rightarrow> string \<Rightarrow> string \<Rightarrow> finding list" where
  \<comment> \<open>one entry of the collocation table: the words, the preposition as shown in the
      message, and its first alternative\<close>
  "preposition_findings ws prep prep0 sentence =
     concat (map (\<lambda>m.
        (let word_after = group_str (m_groups m) 2; w = group_str (m_groups m) 1
         in if \<not> re_search False (rx_prep_before prep0 word_after) (lower sentence) then
              [span_finding ''missing_preposition''
                 (''Missing preposition '' @ [sq] @ prep @ [sq] @ '' after '' @ [sq] @ w @ [sq])
                 sentence (int (m_start m)) (int (m_end m)) (m_text (lower sentence) m) ''medium''
                 (w @ '' '' @ prep0 @ '' '' @ word_after)]
            else []))
       (finditer False (rx_collocation ws) (lower sentence)))"

definition detect_missing_prepositions :: "sp_token list \<Rightarrow> string \<Rightarrow> finding list" where
  "detect_missing_prepositions doc sentence =
     preposition_findings [''interested'', ''good'', ''bad''] ''in'' ''in'' sentence
     @ preposition_findings [''depends'', ''rely''] ''on'' ''on'' sentence
     @ preposition_findings [''listen'', ''look''] ''to/at'' ''to'' sentence"

definition detect_structure_errors_spacy :: "sp_token list \<Rightarrow> string \<Rightarrow> error + finding list" where
  "detect_structure_errors_spacy doc sentence =
     (let has_subject = list_ex (\<lambda>t. tok_dep t \<in> set [''nsubj'', ''nsubjpass'']) doc;
          has_verb = list_ex (\<lambda>t. tok_dep t = ''ROOT'' \<and> tok_pos t = ''VERB'') doc;
          e_subject =
            (if \<not> has_subject \<and> has_verb
                \<and> \<not> list_ex (\<lambda>t. lower (tok_text t) \<in> set [''please'', ''let'', ''make'']) doc
             then
               [structure_finding ''missing_subject'' ''Sentence is missing a subject'' sentence ''high''
                  ''Add a subject (I, You, He, She, It, We, They, or a noun)'']
             else []);
          e_verb =
            (if has_subject \<and> \<not> has_verb then
               [structure_finding ''missing_verb'' ''Sentence is missing a verb'' sentence ''high''
                  ''Add a verb to complete the sentence'']
             else [])
      in case detect_missing_articles doc sentence of
           Inl x \<Rightarrow> Inl x
         | Inr e_articles \<Rightarrow>
             Inr (e_subject @ e_verb @ detect_word_order_errors doc sentence @ e_articles
                  @ detect_missing_prepositions doc sentence))"

subsection \<open>Generating the correction of one sentence\<close>

fun infinitive_fix :: "string list \<Rightarrow> string \<Rightarrow> string option" where
  \<comment> \<open>the loop that tries, verb by verb, the two-word and then the one-word pattern\<close>
  "infinitive_fix [] low = None"
| "infinitive_fix (v # vs) low =
     (case re_match True (rx_inf2 v) low of
        Some g \<Rightarrow> Some (''I '' @ v @ '' to '' @ group_str g 1 @ '' '' @ capitalize (group_str g 2) @ ''.'')
      | None \<Rightarrow>
         (case re_match True (rx_inf1 v) low of
            Some g \<Rightarrow> Some (''I '' @ v @ '' to '' @ capitalize (group_str g 1) @ ''.'')
          | None \<Rightarrow> infinitive_fix vs low))"

definition gsc_step :: "string \<Rightarrow> finding \<Rightarrow> string \<Rightarrow> error + (bool \<times> string)" where
  \<comment> \<open>one round of the loop over the findings of the sentence: whether the loop is left,
      and the new value of \<^verbatim>\<open>corrected\<close>.  The source has two more \<^verbatim>\<open>elif\<close>
      branches, for \<open>word_order\<close> and for \<open>missing_article\<close> with a start offset; each
      stands behind a branch with the same type test, so Python never runs them.\<close>
  "gsc_step sentence e corrected =
     (let error_type = f_type e; suggestion = suggestion_of e; low = lower sentence
      in if error_type = ''word_order'' then
           (case re_match True rx_i_x_name low of
              Some g \<Rightarrow> Inr (True, my_name_is (group_str g 1))
            | None \<Rightarrow>
               (if re_match True rx_name_x_i low \<noteq> None then
                  (case other_part low of
                     None \<Rightarrow> Inr (False, corrected)
                   | Some name \<Rightarrow>
                       (if name \<noteq> [] then Inr (True, my_name_is name) else Inr (False, corrected)))
                else if suggestion \<noteq> [] \<and> contains suggestion ''My name is'' then
                  Inr (True, ensure_dot suggestion)
                else Inr (False, corrected)))
         else if error_type = ''missing_words'' then
           (case re_match True rx_x_name low of
              Some g \<Rightarrow> Inr (True, my_name_is (group_str g 1))
            | None \<Rightarrow> Inr (False, corrected))
         else if error_type = ''missing_subject'' then
           (if suggestion \<noteq> [] then
              (case corrected of
                 [] \<Rightarrow> Inl IndexError
               | c # cs \<Rightarrow>
                  (if islower c then
                     (case split_ws suggestion of
                        [] \<Rightarrow> Inl IndexError
                      | w # ws \<Rightarrow> Inr (False, capitalize w @ '' '' @ corrected))
                   else Inr (False, suggestion @ '' '' @ corrected)))
            else Inr (False, corrected))
         else if error_type = ''missing_verb'' then
           (if contains low ''name'' then
              (if contains low ''my'' \<or> contains low ''i'' then
                 Inr (False, replace_all ''name'' ''name is'' sentence)
               else if split_ws sentence \<noteq> [] then
                 Inr (False, ''My name is '' @ last (split_ws sentence))
               else Inr (False, sentence))
            else Inr (False, corrected))
         else if error_type = ''missing_article'' then
           (if contains low ''i am'' then
              (case re_match True rx_i_am_x low of
                 Some g \<Rightarrow>
                   (let noun = group_str g 1;
                        article = (case noun of [] \<Rightarrow> ''a''
                                   | c # cs \<Rightarrow> if \<not> is_vowel (lower_c c) then ''a'' else ''an'')
                    in Inr (True, ''I am '' @ article @ '' '' @ capitalize noun @ ''.''))
               | None \<Rightarrow> Inr (False, corrected))
            else Inr (False, corrected))
         else if error_type = ''missing_infinitive'' then
           (if suggestion \<noteq> [] then Inr (True, suggestion)
            else (case infinitive_fix infinitive_verbs low of
                    Some c \<Rightarrow> Inr (False, c)
                  | None \<Rightarrow> Inr (False, corrected)))
         else Inr (False, corrected))"

fun gsc_loop :: "string \<Rightarrow> finding list \<Rightarrow> string \<Rightarrow> error + string" where
  "gsc_loop sentence [] corrected = Inr corrected"
| "gsc_loop sentence (e # es) corrected =
     (case gsc_step sentence e corrected of
        Inl x \<Rightarrow> Inl x
      | Inr (True, c) \<Rightarrow> Inr c
      | Inr (False, c) \<Rightarrow> gsc_loop sentence es c)"

definition generate_structure_correction :: "env \<Rightarrow> string \<Rightarrow> finding list \<Rightarrow> error + string" where
  "generate_structure_correction env sentence errors =
     (let sentence_errors = sort_desc (filter (\<lambda>e. f_sentence e = Some sentence) errors)
      in case gsc_loop sentence sentence_errors sentence of
           Inl x \<Rightarrow> Inl x
         | Inr corrected \<Rightarrow>
             Inr (normalize_text
                    (if corrected = sentence then
                       (let b = textblob_correct env sentence
                        in if b \<noteq> sentence then b else corrected)
                     else corrected)))"

subsection \<open>Analysis of a text\<close>

definition detect_structure_errors :: "env \<Rightarrow> string \<Rightarrow> error + finding list" where
  \<comment> \<open>the parser when there is one, the rules otherwise\<close>
  "detect_structure_errors env sentence =
     (case nlp env of
        Some parse \<Rightarrow> detect_structure_errors_spacy (parse sentence) sentence
      | None \<Rightarrow> detect_structure_errors_rulebased env sentence)"

fun analyze_loop ::
  "env \<Rightarrow> string list \<Rightarrow> finding list \<Rightarrow> correction list \<Rightarrow> error + (finding list \<times> correction list)"
where
  \<comment> \<open>the loop over the sentences; the findings accumulate over the whole text\<close>
  "analyze_loop env [] errors corrections = Inr (errors, corrections)"
| "analyze_loop env (s # ss) errors corrections =
     (let sentence = strip s
      in if sentence = [] then analyze_loop env ss errors corrections
         else
           (case detect_structure_errors env sentence of
              Inl x \<Rightarrow> Inl x
            | Inr structure_errors \<Rightarrow>
               (let errors' = errors @ structure_errors
                in if errors' \<noteq> [] then
                     (case generate_structure_correction env sentence errors' of
                        Inl x \<Rightarrow> Inl x
                      | Inr c \<Rightarrow>
                         (if c \<noteq> [] \<and> c \<noteq> sentence then
                            analyze_loop env ss errors'
                              (corrections @
                                 [\<lparr>k_original = sentence, k_corrected = c,
                                   k_errors = map f_type
                                     (filter (\<lambda>e. f_sentence e = Some sentence) errors')\<rparr>])
                          else analyze_loop env ss errors' corrections))
                   else analyze_loop env ss errors' corrections)))"

definition analyze_sentence_structure :: "env \<Rightarrow> string \<Rightarrow> error + (finding list \<times> correction list)" where
  \<comment> \<open>the \<open>errors\<close> and the \<open>corrections\<close> of the returned dictionary\<close>
  "analyze_sentence_structure env text =
     (if blank text then Inr ([], [])
      else analyze_loop env (sent_tokenize env text) [] [])"

subsection \<open>Correcting a text\<close>

record structure_result =
  s_original :: string
  s_corrected :: string
  s_changes :: "change list"
  s_structure_errors :: "finding list option"

fun apply_corrections :: "correction list \<Rightarrow> string \<Rightarrow> change list \<Rightarrow> string \<times> change list" where
  \<comment> \<open>each correction replaces the first occurrence of its sentence, when there is one\<close>
  "apply_corrections [] corrected_text changes = (corrected_text, changes)"
| "apply_corrections (k # ks) corrected_text changes =
     (if contains corrected_text (k_original k) then
        apply_corrections ks (replace1 (k_original k) (k_corrected k) corrected_text)
          (changes @ [structure_change (k_original k) (k_corrected k) (k_errors k)])
      else apply_corrections ks corrected_text changes)"

definition pick_error :: "finding list \<Rightarrow> finding option" where
  \<comment> \<open>the finding the fallback works on: infinitive, then word order, then article, then
      any other of high or medium severity\<close>
  "pick_error errors =
     (case filter (\<lambda>e. f_type e = ''missing_infinitive'') errors of
        e # _ \<Rightarrow> Some e
      | [] \<Rightarrow>
       (case filter (\<lambda>e. f_type e \<in> set [''word_order'', ''missing_words'']) errors of
          e # _ \<Rightarrow> Some e
        | [] \<Rightarrow>
         (case filter (\<lambda>e. f_type e = ''missing_article'') errors of
            e # _ \<Rightarrow> Some e
          | [] \<Rightarrow>
           (case filter (\<lambda>e. f_severity e \<in> set [''high'', ''medium'']
                              \<and> f_type e \<notin> set [''missing_infinitive'', ''word_order'', ''missing_words'',
                                                  ''missing_article'']) errors of
              e # _ \<Rightarrow> Some e
            | [] \<Rightarrow> None))))"

definition intelligent_correction :: "string \<Rightarrow> finding \<Rightarrow> string \<times> change list" where
  \<comment> \<open>the fallback of \<^verbatim>\<open>correct_sentence_structure\<close> on the picked finding: the new text
      and the changes it records.  In the source the chain under \<^verbatim>\<open>elif suggestion\<close> has one
      more branch, for \<open>missing_infinitive\<close>; that type is taken by the first branch, so
      Python never runs it.\<close>
  "intelligent_correction text e =
     (let suggestion = suggestion_of e; error_type = f_type e; low = lower text
      in if error_type = ''missing_infinitive'' then
           (case infinitive_fix infinitive_verbs low of
              Some c \<Rightarrow> (c, [structure_change text c [''missing_infinitive'']])
            | None \<Rightarrow>
               (if suggestion \<noteq> [] then
                  (ensure_dot suggestion,
                   [structure_change text (ensure_dot suggestion) [''missing_infinitive'']])
                else (text, [])))
         else if suggestion \<noteq> [] then
           (case re_match True rx_i_x_name low of
              Some g \<Rightarrow>
                (my_name_is (group_str g 1),
                 [structure_change text (my_name_is (group_str g 1)) [''word_order'', ''missing_words'']])
            | None \<Rightarrow>
             (case re_match True rx_x_name low of
                Some g \<Rightarrow>
                  (my_name_is (group_str g 1),
                   [structure_change text (my_name_is (group_str g 1)) [''missing_words'', ''word_order'']])
              | None \<Rightarrow>
               (case re_match True rx_x_am_i low of
                  Some g \<Rightarrow>
                    (if lower (group_str g 1) \<notin> set [''i'', ''am''] then
                       (my_name_is (group_str g 1),
                        [structure_change text (my_name_is (group_str g 1)) [''word_order'']])
                     else (text, []))
                | None \<Rightarrow>
                   (if re_match True rx_name_x_i low \<noteq> None \<or> re_match True rx_x_name_i low \<noteq> None then
                      (case other_part low of
                         None \<Rightarrow> (text, [])
                       | Some name \<Rightarrow>
                          (if name \<noteq> [] then
                             (my_name_is name,
                              [structure_change text (my_name_is name) [''word_order'', ''missing_words'']])
                           else (text, [])))
                    else if contains suggestion ''My name is'' then
                      (ensure_dot suggestion, [structure_change text (ensure_dot suggestion) [error_type]])
                    else if error_type = ''missing_article'' \<and> contains low ''i am'' then
                      (case re_match True rx_i_am_x low of
                         Some g \<Rightarrow>
                           (let noun = group_str g 1;
                                article = (case noun of [] \<Rightarrow> ''a''
                                           | c # cs \<Rightarrow> if \<not> is_vowel (lower_c c) then ''a'' else ''an'');
                                c = ''I am '' @ article @ '' '' @ capitalize noun @ ''.''
                            in (c, [structure_change text c [''missing_article'']]))
                       | None \<Rightarrow> (text, []))
                    else if suggestion \<noteq> text then
                      (suggestion, [structure_change text suggestion [error_type]])
                    else (text, [])))))
         else (text, []))"

definition correct_sentence_structure :: "env \<Rightarrow> string \<Rightarrow> error + structure_result" where
  "correct_sentence_structure env text =
     (if blank text then
        Inr \<lparr>s_original = text, s_corrected = text, s_changes = [], s_structure_errors = None\<rparr>
      else
        (case analyze_sentence_structure env text of
           Inl x \<Rightarrow> Inl x
         | Inr (errors, corrections) \<Rightarrow>
            (let (corrected_text, changes) = apply_corrections corrections text []
             in if corrected_text = text \<and> errors \<noteq> [] then
                  (case pick_error errors of
                     None \<Rightarrow>
                       Inr \<lparr>s_original = text, s_corrected = corrected_text, s_changes = changes,
                            s_structure_errors = Some errors\<rparr>
                   | Some e \<Rightarrow>
                       Inr \<lparr>s_original = text, s_corrected = fst (intelligent_correction text e),
                            s_changes = changes @ snd (intelligent_correction text e),
                            s_structure_errors = Some errors\<rparr>)
                else
                  Inr \<lparr>s_original = text, s_corrected = corrected_text, s_changes = changes,
                       s_structure_errors = Some errors\<rparr>)))"

section \<open>The model-based corrector (\<^verbatim>\<open>grammar_corrector.py\<close>)\<close>

record text_result =
  t_original :: string
  t_corrected :: string
  t_method :: string

definition load_grammar_model :: "env \<Rightarrow> bool" where
  \<comment> \<open>whether a model is there after the lazy load\<close>
  "load_grammar_model env = (TRANSFORMERS_AVAILABLE env \<and> grammar_model env \<noteq> None)"

definition model_output :: "env \<Rightarrow> string \<Rightarrow> string option" where
  \<comment> \<open>the text the loaded model generates for \<^verbatim>\<open>"grammar: " + original_text\<close>; both ways of
      running the model end in the same test on it\<close>
  "model_output env original_text =
     (case grammar_model env of
        None \<Rightarrow> None
      | Some (Pipeline run) \<Rightarrow> run (''grammar: '' @ original_text)
      | Some (Manual run) \<Rightarrow> run (''grammar: '' @ original_text))"

definition rule_based_text :: "env \<Rightarrow> string \<Rightarrow> text_result" where
  \<comment> \<open>the fallback of \<^verbatim>\<open>correct_text\<close>; an exception of the structural corrector is caught\<close>
  "rule_based_text env original_text =
     (case correct_sentence_structure env original_text of
        Inl x \<Rightarrow> \<lparr>t_original = original_text, t_corrected = original_text, t_method = ''none''\<rparr>
      | Inr r \<Rightarrow>
         (let corrected = normalize_text (s_corrected r)
          in if corrected \<noteq> [] \<and> corrected \<noteq> original_text then
               \<lparr>t_original = original_text, t_corrected = corrected, t_method = ''rule_based''\<rparr>
             else \<lparr>t_original = original_text, t_corrected = original_text, t_method = ''none''\<rparr>))"

definition correct_text :: "env \<Rightarrow> string \<Rightarrow> bool \<Rightarrow> text_result" where
  "correct_text env text use_model =
     (if blank text then \<lparr>t_original = text, t_corrected = text, t_method = ''none''\<rparr>
      else
        (let original_text = strip text
         in if use_model \<and> TRANSFORMERS_AVAILABLE env \<and> load_grammar_model env then
              (case model_output env original_text of
                 Some corrected \<Rightarrow>
                   (if corrected \<noteq> [] \<and> corrected \<noteq> original_text then
                      \<lparr>t_original = original_text, t_corrected = strip corrected,
                       t_method = ''t5_model''\<rparr>
                    else rule_based_text env original_text)
               | None \<Rightarrow> rule_based_text env original_text)
            else rule_based_text env original_text))"

definition correct_batch :: "env \<Rightarrow> string list \<Rightarrow> text_result list" where
  "correct_batch env texts = map (\<lambda>text. correct_text env text True) texts"

section \<open>A reference environment\<close>

text \<open>
  A small environment for evaluating the program on concrete texts: no parser, no
  trained model, no enhancement service; the whole text is one sentence, the tokens are
  the runs of word characters and the single punctuation characters, every word is
  spelled correctly and tagged as a noun.  On the one-sentence texts evaluated below the
  tokenizers agree with the ones the program imports.
\<close>

fun tokens_acc :: "string \<Rightarrow> string \<Rightarrow> string list" where
  "tokens_acc w [] = (if w = [] then [] else [w])"
| "tokens_acc w (c # cs) =
     (if isspace c then (if w = [] then tokens_acc [] cs else w # tokens_acc [] cs)
      else if isword c then tokens_acc (w @ [c]) cs
      else (if w = [] then [c] # tokens_acc [] cs else w # [c] # tokens_acc [] cs))"

definition env0 :: env where
  "env0 = \<lparr>sent_tokenize = (\<lambda>t. [t]),
           word_tokenize = tokens_acc [],
           pos_tag = map (\<lambda>w. (w, ''NN'')),
           textblob_correct = (\<lambda>t. t),
           nlp = None,
           corrector = None,
           TRANSFORMERS_AVAILABLE = False,
           grammar_model = None,
           OPENAI_AVAILABLE = False,
           API_KEY = [],
           client = None\<rparr>"

section \<open>The enhancement service (\<^verbatim>\<open>ai_service.py\<close>)\<close>

definition get_client ::
  "env \<Rightarrow> (string option \<Rightarrow> string \<Rightarrow> nat \<Rightarrow> rat \<Rightarrow> string option) option" where
  "get_client env = (if \<not> OPENAI_AVAILABLE env \<or> API_KEY env = [] then None else client env)"

definition is_ai_available :: "env \<Rightarrow> bool" where
  "is_ai_available env =
     (if \<not> OPENAI_AVAILABLE env \<or> API_KEY env = [] then False else get_client env \<noteq> None)"

definition generate_ai_response :: "env \<Rightarrow> string \<Rightarrow> string option \<Rightarrow> nat \<Rightarrow> rat \<Rightarrow> string option" where
  \<comment> \<open>the stripped content of the first choice; \<open>None\<close> without a client, and when the
      call raises or gives no choice\<close>
  "generate_ai_response env prompt system_prompt max_tokens temperature =
     (case get_client env of
        None \<Rightarrow> None
      | Some call \<Rightarrow>
         (if API_KEY env = [] then None
          else map_option strip
                 (call (if system_prompt = Some [] then None else system_prompt)
                    prompt max_tokens temperature)))"

definition dq :: char where
  \<comment> \<open>the double quote\<close>
  "dq = CHR 0x22"

definition arrow :: string where
  \<comment> \<open>the rightwards arrow of the prompt, in UTF-8\<close>
  "arrow = [CHR 0xE2, CHR 0x86, CHR 0x92]"

definition ai_prompt :: "string \<Rightarrow> string" where
  "ai_prompt text =
     ''Correct this English sentence. Fix:'' @ [nl]
     @ ''1. Grammar errors (subject-verb agreement, tense, etc.)'' @ [nl]
     @ ''2. Spelling mistakes'' @ [nl]
     @ ''3. Punctuation and capitalization'' @ [nl]
     @ ''4. Sentence structure and word order (e.g., '' @ [dq] @ ''name Nishanth I'' @ [dq] @ '' ''
     @ arrow @ '' '' @ [dq] @ ''My name is Nishanth'' @ [dq] @ '')'' @ [nl]
     @ ''5. Sentence formation errors (missing words, incorrect word order, fragments)'' @ [nl, nl]
     @ ''Only return the corrected sentence, nothing else.'' @ [nl, nl]
     @ ''Original: '' @ text @ [nl, nl]
     @ ''Corrected:''"

definition ai_system_prompt :: string where
  "ai_system_prompt =
     ''You are an English grammar expert specializing in sentence structure and format correction. ''
     @ ''Correct sentences accurately, especially fixing word order and sentence formation issues.''"

section \<open>Lexical error detector and orchestrator (\<^verbatim>\<open>grammar_analysis.py\<close>)\<close>

subsection \<open>Detection\<close>

definition rx_pair :: "string list \<Rightarrow> regex" where
  \<comment> \<open>\<^verbatim>\<open>\b(a|b)\b.*\b(a|b)\b\<close>\<close>
  "rx_pair ws = seqs [Bnd, Grp 1 (alts ws), Bnd, Rep CAny 0, Bnd, Grp 2 (alts ws), Bnd]"

definition rx_word :: "string list \<Rightarrow> regex" where
  \<comment> \<open>\<^verbatim>\<open>\b(a|b)\b\<close>\<close>
  "rx_word ws = seqs [Bnd, Grp 1 (alts ws), Bnd]"

definition common_mistakes :: "(regex \<times> string \<times> string) list" where
  \<comment> \<open>pattern, message and correction, in the order of the dictionary\<close>
  "common_mistakes =
     [(rx_pair [''your'', ''you're''],
       ''Check usage of 'your' vs 'you're'' @ [sq],
       ''Use 'your' for possession, 'you're' for 'you are'' @ [sq]),
      (rx_pair [''its'', ''it's''],
       ''Check usage of 'its' vs 'it's'' @ [sq],
       ''Use 'its' for possession, 'it's' for 'it is'' @ [sq]),
      (rx_pair [''their'', ''they're'', ''there''],
       ''Check usage of 'their', 'they're', or 'there'' @ [sq],
       ''Use 'their' for possession, 'they're' for 'they are', 'there' for location''),
      (rx_word [''could of'', ''should of'', ''would of''],
       ''Incorrect: 'could of', 'should of', 'would of'' @ [sq],
       ''Use 'could have', 'should have', 'would have'' @ [sq]),
      (rx_word [''loose'', ''lose''],
       ''Check 'loose' (not tight) vs 'lose' (misplace)'',
       ''Use 'lose' when you misplace something, 'loose' when something is not tight''),
      (rx_word [''affect'', ''effect''],
       ''Check 'affect' (verb) vs 'effect' (noun)'',
       ''Use 'affect' as a verb (to influence), 'effect' as a noun (result)''),
      (rx_word [''then'', ''than''],
       ''Check 'then' (time) vs 'than' (comparison)'',
       ''Use 'then' for time sequence, 'than' for comparisons'')]"

definition common_mistake_findings :: "string \<Rightarrow> finding list" where
  "common_mistake_findings text =
     concat (map (\<lambda>(pattern, message, correction).
        map (\<lambda>m. lexical_finding ''common_mistake'' message (int (m_start m)) (int (m_end m))
                    (m_text text m) correction ''medium'')
            (finditer True pattern text))
       common_mistakes)"

definition double_space_findings :: "string \<Rightarrow> finding list" where
  \<comment> \<open>\<^verbatim>\<open>\s{2,}\<close>\<close>
  "double_space_findings text =
     map (\<lambda>m. lexical_finding ''formatting'' ''Double space detected'' (int (m_start m)) (int (m_end m))
                 (m_text text m) ''Use single space'' ''low'')
         (finditer False (Rep CSpace 2) text)"

definition agreement_findings :: "env \<Rightarrow> string \<Rightarrow> string \<Rightarrow> finding list" where
  \<comment> \<open>the check of \<open>there is\<close> before a plural; an exception inside it is swallowed\<close>
  "agreement_findings env text sentence =
     (let words = word_tokenize env sentence; pos_tags = pos_tag env words
      in if length pos_tags \<ge> 3 then
           (case words of
              [] \<Rightarrow> []
            | w0 # ws \<Rightarrow>
               (if lower w0 = ''there'' \<and> length words > 1 then
                  (if lower (words ! 1) = ''is'' \<and> list_ex (\<lambda>tag. snd tag = ''NNS'') (drop 2 pos_tags)
                   then
                     [lexical_finding ''subject_verb_agreement''
                        ''Subject-verb agreement: 'there is' should be 'there are' for plural''
                        (py_find text sentence + py_find sentence ''there is'')
                        (py_find text sentence + py_find sentence ''there is'' + 8)
                        ''there is'' ''there are'' ''high'']
                   else [])
                else []))
         else [])"

definition sentence_findings :: "env \<Rightarrow> string \<Rightarrow> string \<Rightarrow> finding list" where
  \<comment> \<open>the checks on one stripped, non-empty sentence\<close>
  "sentence_findings env text sentence =
     (let start_pos = py_find text sentence; n = int (length sentence)
      in (case sentence of
            [] \<Rightarrow> []
          | c # cs \<Rightarrow>
             (if \<not> isupper c then
                [lexical_finding ''capitalization'' ''Sentence should start with capital letter''
                   start_pos (start_pos + n) (take 50 sentence)
                   (if length sentence > 1 then upper_c c # cs else upper sentence) ''low'']
              else []))
         @ (if \<not> is_terminal (last sentence) then
              [lexical_finding ''punctuation'' ''Sentence should end with punctuation (. ! or ?)''
                 (start_pos + n - 1) (start_pos + n) (drop (length sentence - 10) sentence)
                 (sentence @ ''.'') ''medium'']
            else [])
         @ (if length (word_tokenize env (lower sentence)) < 3 \<and> \<not> is_terminal (last sentence) then
              [lexical_finding ''sentence_fragment'' ''Sentence fragment detected - incomplete thought''
                 start_pos (start_pos + n) sentence (''Complete the thought: '' @ sentence) ''high'']
            else [])
         @ (if length sentence > 100 \<and> count_char CHR '','' sentence < 2 then
              [lexical_finding ''run_on_sentence''
                 ''Run-on sentence detected - consider breaking into shorter sentences''
                 start_pos (start_pos + n) (take 50 sentence @ ''...'')
                 ''Break into multiple sentences or add proper punctuation'' ''medium'']
            else [])
         @ agreement_findings env text sentence)"

fun article_findings :: "sp_token option \<Rightarrow> sp_token list \<Rightarrow> error + finding list" where
  \<comment> \<open>the loop over the parsed text, with the previous token\<close>
  "article_findings prev [] = Inr []"
| "article_findings prev (t # ts) =
     (case prev of
        None \<Rightarrow> article_findings (Some t) ts
      | Some p \<Rightarrow>
         (if tok_pos t = ''NOUN'' \<and> tok_pos p \<notin> set [''DET'', ''ADJ'', ''NOUN'', ''PROPN''] then
            (case tok_text t of
               [] \<Rightarrow> Inl IndexError
             | c # cs \<Rightarrow>
                (case article_findings (Some t) ts of
                   Inl x \<Rightarrow> Inl x
                 | Inr rest \<Rightarrow>
                    Inr ((if islower c
                             \<and> lower (tok_text t) \<notin> set [''i'', ''you'', ''he'', ''she'', ''it'', ''we'', ''they'']
                          then
                            [lexical_finding ''missing_article''
                               (''Consider adding an article (a/an/the) before '' @ [sq] @ tok_text t @ [sq])
                               (int (tok_idx t)) (int (tok_idx t + length (tok_text t))) (tok_text t)
                               (if is_vowel (lower_c c) then ''the '' @ tok_text t else ''a '' @ tok_text t)
                               ''low'']
                          else []) @ rest)))
          else article_findings (Some t) ts))"

definition spelling_findings :: "env \<Rightarrow> string \<Rightarrow> finding list" where
  \<comment> \<open>the words the spelling corrector changed, each at its first occurrence\<close>
  "spelling_findings env text =
     (let corrected = textblob_correct env text
      in if corrected \<noteq> text then
           concat (map (\<lambda>(orig, corr).
              (if orig \<noteq> corr then
                 (let pos = py_find_from (lower text) orig (py_find (lower text) orig)
                  in if pos \<noteq> - 1 then
                       [lexical_finding ''spelling'' (''Possible spelling error: '' @ [sq] @ orig @ [sq])
                          pos (pos + int (length orig)) orig corr ''medium'']
                     else [])
               else []))
             (zip (word_tokenize env (lower text)) (word_tokenize env (lower corrected))))
         else [])"

definition detect_grammar_errors :: "env \<Rightarrow> string \<Rightarrow> error + finding list" where
  "detect_grammar_errors env text =
     (if blank text then Inr []
      else
        (case analyze_sentence_structure env text of
           Inl x \<Rightarrow> Inl x
         | Inr (structure_errors, corrections) \<Rightarrow>
            (case (case nlp env of None \<Rightarrow> Inr [] | Some parse \<Rightarrow> article_findings None (parse text)) of
               Inl x \<Rightarrow> Inl x
             | Inr e_articles \<Rightarrow>
                Inr (structure_errors
                     @ common_mistake_findings text
                     @ double_space_findings text
                     @ concat (map (sentence_findings env text)
                                 (filter (\<lambda>s. s \<noteq> []) (map strip (sent_tokenize env text))))
                     @ e_articles
                     @ spelling_findings env text))))"

subsection \<open>Orchestration\<close>

record grammar_result =
  g_original :: string
  g_corrected :: string
  g_changes :: "change list"
  g_errors_found :: "nat option"
  g_method :: "string option"

definition fragment_step :: "finding \<Rightarrow> string \<times> change list \<Rightarrow> error + (string \<times> change list)" where
  \<comment> \<open>one round of the loop over the sorted findings: a fragment replacement for the
      lexical types, then a sentence replacement for the structural types;
      \<^verbatim>\<open>error["text"]\<close> raises when the finding has no text\<close>
  "fragment_step e st =
     (case (case f_correction e of
              None \<Rightarrow> Inr st
            | Some correction \<Rightarrow>
               (if correction \<noteq> []
                   \<and> f_type e \<in> set [''spelling'', ''common_mistake'', ''subject_verb_agreement'']
                then
                  (case f_text e of
                     None \<Rightarrow> Inl KeyError
                   | Some original \<Rightarrow>
                      (if contains (fst st) original then
                         Inr (replace1 original correction (fst st),
                              snd st @ [message_change (f_type e) original correction (f_message e)])
                       else Inr st))
                else Inr st)) of
        Inl x \<Rightarrow> Inl x
      | Inr st1 \<Rightarrow>
         (if f_type e \<in> set [''word_order'', ''missing_words'', ''missing_subject'', ''missing_verb'']
             \<and> suggestion_of e \<noteq> []
          then
            (case f_sentence e of
               None \<Rightarrow> Inr st1
             | Some original_sentence \<Rightarrow>
                (if original_sentence \<noteq> [] \<and> contains (fst st1) original_sentence
                    \<and> \<not> contains (fst st1) ''My name is''
                 then
                   Inr (ensure_dot (replace1 original_sentence (suggestion_of e) (fst st1)),
                        snd st1 @ [message_change (f_type e) original_sentence (suggestion_of e)
                                     (f_message e)])
                 else Inr st1))
          else Inr st1))"

fun apply_fragments :: "finding list \<Rightarrow> string \<times> change list \<Rightarrow> error + (string \<times> change list)" where
  "apply_fragments [] st = Inr st"
| "apply_fragments (e # es) st =
     (case fragment_step e st of Inl x \<Rightarrow> Inl x | Inr st' \<Rightarrow> apply_fragments es st')"

definition t5_output :: "env \<Rightarrow> string \<Rightarrow> string option" where
  \<comment> \<open>what the text-to-text pipeline generates for \<^verbatim>\<open>"grammar: " + text\<close>\<close>
  "t5_output env text =
     (case corrector env of None \<Rightarrow> None | Some run \<Rightarrow> run (''grammar: '' @ text))"

definition t5_stage :: "env \<Rightarrow> string \<Rightarrow> string \<times> change list \<Rightarrow> string \<times> change list" where
  \<comment> \<open>runs only when nothing has changed the text so far; the output is taken when it
      differs from the text and is longer than half of it\<close>
  "t5_stage env text st =
     (if corrector env \<noteq> None \<and> fst st = text then
        (case t5_output env text of
           None \<Rightarrow> st
         | Some t5_corrected \<Rightarrow>
            (if t5_corrected \<noteq> text \<and> 2 * length t5_corrected > length text then
               (t5_corrected,
                snd st @ [message_change ''auto_correction'' text t5_corrected
                            ''AI-powered grammar correction''])
             else st))
      else st)"

definition textblob_stage :: "env \<Rightarrow> string \<Rightarrow> string \<times> change list \<Rightarrow> string \<times> change list" where
  "textblob_stage env text st =
     (if snd st = [] \<or> fst st = text then
        (let blob_corrected = textblob_correct env text
         in if blob_corrected \<noteq> text then
              (blob_corrected,
               snd st @ [message_change ''textblob_correction'' text blob_corrected
                           ''Spell and grammar correction''])
            else st)
      else st)"

fun join_space :: "string list \<Rightarrow> string" where
  \<comment> \<open>\<^verbatim>\<open>' '.join(xs)\<close>\<close>
  "join_space [] = []"
| "join_space [x] = x"
| "join_space (x # xs) = x @ '' '' @ join_space xs"

definition formatting_stage :: "env \<Rightarrow> string \<times> change list \<Rightarrow> string \<times> change list" where
  \<comment> \<open>capitalization and terminal punctuation, sentence by sentence\<close>
  "formatting_stage env st =
     (let fixed_sentences =
            map (\<lambda>s. add_period (cap_first s))
                (filter (\<lambda>s. s \<noteq> []) (map strip (sent_tokenize env (fst st))));
          final_corrected = join_space fixed_sentences
      in if final_corrected \<noteq> fst st then
           (final_corrected,
            snd st @ [message_change ''formatting'' (fst st) final_corrected
                        ''Capitalization and punctuation fixes''])
         else st)"

definition ai_stage :: "env \<Rightarrow> string \<Rightarrow> grammar_result option" where
  \<comment> \<open>the first stage: the result it commits to, or \<open>None\<close> when it declines.  An
      exception of the structure check inside it is caught, and the stage declines.\<close>
  "ai_stage env text =
     (if is_ai_available env then
        (case generate_ai_response env (ai_prompt text) (Some ai_system_prompt) 150 (3 / 10) of
           None \<Rightarrow> None
         | Some ai_corrected \<Rightarrow>
            (if ai_corrected \<noteq> [] \<and> strip ai_corrected \<noteq> [] \<and> strip ai_corrected \<noteq> text then
               (case correct_sentence_structure env text of
                  Inl x \<Rightarrow> None
                | Inr structure_check \<Rightarrow>
                   Some \<lparr>g_original = text,
                         g_corrected = strip ai_corrected,
                         g_changes =
                           (if lower (strip ai_corrected) \<noteq> lower text then
                              [message_change ''ai_correction'' text (strip ai_corrected)
                                 ''AI-enhanced grammar correction applied'']
                            else [])
                           @ s_changes structure_check,
                         g_errors_found =
                           Some (length (case s_structure_errors structure_check of
                                           None \<Rightarrow> [] | Some es \<Rightarrow> es)),
                         g_method = Some ''ai_enhanced''\<rparr>)
             else None))
      else None)"

definition composite :: "env \<Rightarrow> string \<Rightarrow> structure_result \<Rightarrow> error + grammar_result" where
  \<comment> \<open>the stages after a structure correction that changed nothing\<close>
  "composite env text structure_correction =
     (case detect_grammar_errors env text of
        Inl x \<Rightarrow> Inl x
      | Inr errors \<Rightarrow>
         (case apply_fragments (sort_desc errors)
                 (s_corrected structure_correction, s_changes structure_correction) of
            Inl x \<Rightarrow> Inl x
          | Inr st \<Rightarrow>
             (let st' = formatting_stage env (textblob_stage env text (t5_stage env text st))
              in Inr \<lparr>g_original = text, g_corrected = fst st', g_changes = snd st',
                      g_errors_found = Some (length errors), g_method = None\<rparr>)))"

definition correct_grammar :: "env \<Rightarrow> string \<Rightarrow> bool \<Rightarrow> error + grammar_result" where
  "correct_grammar env text use_ai =
     (if blank text then
        Inr \<lparr>g_original = text, g_corrected = text, g_changes = [], g_errors_found = None,
             g_method = None\<rparr>
      else
        (case (if use_ai then ai_stage env text else None) of
           Some r \<Rightarrow> Inr r
         | None \<Rightarrow>
            (case correct_sentence_structure env text of
               Inl x \<Rightarrow> Inl x
             | Inr structure_correction \<Rightarrow>
                (if s_corrected structure_correction \<noteq> text
                    \<and> s_changes structure_correction \<noteq> []
                 then
                   Inr \<lparr>g_original = text,
                        g_corrected = s_corrected structure_correction,
                        g_changes = s_changes structure_correction,
                        g_errors_found =
                          Some (length (case s_structure_errors structure_correction of
                                          None \<Rightarrow> [] | Some es \<Rightarrow> es)),
                        g_method = Some ''rule_based''\<rparr>
                 else composite env text structure_correction))))"

section \<open>Explanation generator (\<^verbatim>\<open>explanation_engine.py\<close>)\<close>

text \<open>A match of the external style checker, and the two dictionaries built from it.\<close>

record lt_match =
  lt_message :: string
  lt_replacements :: "string list"
  lt_context :: string
  lt_offset :: int
  lt_errorLength :: int
  lt_ruleId :: string
  lt_category :: string

record lt_error =
  e_error :: string
  e_suggestions :: "string list"
  e_context :: string
  e_offset :: int
  e_errorLength :: int
  e_rule_id :: string
  e_category :: string

record explanation =
  x_type :: string
  x_message :: string
  x_suggestions :: "string list option"
  x_rule :: string
  x_example :: "string option"

record explanation_bundle =
  b_summary :: string
  b_explanations :: "explanation list"
  b_errors :: "lt_error list"
  b_suggestions :: "string list"
  b_correction_applied :: "bool option"

text \<open>
  The checker is loaded lazily into a module-level variable, which is the state of this
  module: \<open>None\<close> until a load has succeeded.  The environment says whether the library
  is installed, what creating the checker gives (\<open>None\<close> when it raises; a checker maps a
  text to its matches, or to \<open>None\<close> when the check raises), and in which order this
  process lists the elements of a set of strings built from a list.
\<close>

type_synonym checker = "string \<Rightarrow> lt_match list option"

record lt_env =
  LANGUAGE_TOOL_AVAILABLE :: bool
  lt_create :: "checker option"
  set_to_list :: "string list \<Rightarrow> string list"

definition load_language_tool :: "lt_env \<Rightarrow> checker option \<Rightarrow> bool \<times> checker option" where
  "load_language_tool env language_tool =
     (if \<not> LANGUAGE_TOOL_AVAILABLE env then (False, language_tool)
      else if language_tool \<noteq> None then (True, language_tool)
      else (case lt_create env of
              Some tool \<Rightarrow> (True, Some tool)
            | None \<Rightarrow> (False, None)))"

definition cross :: string where
  \<comment> \<open>the cross mark of the examples, in UTF-8\<close>
  "cross = [CHR 0xE2, CHR 0x9D, CHR 0x8C]"

definition check_mark :: string where
  \<comment> \<open>the check mark of the examples, in UTF-8\<close>
  "check_mark = [CHR 0xE2, CHR 0x9C, CHR 0x85]"

definition rule_explanation :: "string \<Rightarrow> string \<Rightarrow> string \<Rightarrow> string \<Rightarrow> explanation" where
  "rule_explanation t m r ex =
     \<lparr>x_type = t, x_message = m, x_suggestions = None, x_rule = r, x_example = Some ex\<rparr>"

definition generate_rule_based_explanations :: "string \<Rightarrow> string \<Rightarrow> error + explanation list" where
  \<comment> \<open>\<^verbatim>\<open>corrected[0]\<close> and \<^verbatim>\<open>original[0]\<close> raise on an empty string\<close>
  "generate_rule_based_explanations original corrected =
     (let original_lower = lower original; corrected_lower = lower corrected;
          x_order =
            (if contains corrected_lower ''my name is'' \<and> contains original_lower ''i''
                \<and> contains original_lower ''name'' \<and> \<not> contains original_lower ''my name is''
             then
               [rule_explanation ''word_order''
                  ''Sentence structure corrected: English follows Subject-Verb-Object order.''
                  ''English sentence structure: 'My name is [name]' is the standard format.''
                  (cross @ '' '' @ [sq] @ original @ [sq] @ '' '' @ arrow @ '' '' @ check_mark
                   @ '' '' @ [sq] @ corrected @ [sq])]
             else []);
          x_article =
            (if (contains corrected_lower ''i am a'' \<or> contains corrected_lower ''i am an'')
                \<and> \<not> contains original_lower ''i am a'' \<and> \<not> contains original_lower ''i am an''
             then
               [rule_explanation ''missing_article'' ''Added article 'a' or 'an' before the noun.''
                  ''Use 'a' before consonant sounds, 'an' before vowel sounds.''
                  (''I am student '' @ arrow @ '' I am a student'')]
             else []);
          x_infinitive =
            (if contains corrected_lower ''to'' \<and> \<not> contains original_lower ''to''
                \<and> list_ex (\<lambda>verb. contains original_lower verb) [''like'', ''want'', ''need'', ''try'']
             then
               [rule_explanation ''missing_infinitive''
                  ''Added 'to' before the verb to form an infinitive.''
                  ''After verbs like 'like', 'want', 'need', use 'to' + base verb.''
                  (''I like play '' @ arrow @ '' I like to play'')]
             else [])
      in case corrected of
           [] \<Rightarrow> Inl IndexError
         | c # cs \<Rightarrow>
            (case (if isupper c then (case original of [] \<Rightarrow> Inl IndexError | d # ds \<Rightarrow> Inr (islower d))
                   else Inr False) of
               Inl x \<Rightarrow> Inl x
             | Inr capitalized \<Rightarrow>
                Inr (x_order @ x_article @ x_infinitive
                     @ (if capitalized then
                          [rule_explanation ''capitalization''
                             ''Capitalized the first letter of the sentence.''
                             ''Sentences must begin with a capital letter.''
                             ([sq] @ original @ [sq] @ '' '' @ arrow @ '' '' @ [sq] @ corrected @ [sq])]
                        else [])
                     @ (if endswith corrected ''.'' \<and> \<not> endswith original ''.'' then
                          [rule_explanation ''punctuation'' ''Added period at the end of the sentence.''
                             ''Declarative sentences end with a period.''
                             ([sq] @ original @ [sq] @ '' '' @ arrow @ '' '' @ [sq] @ corrected @ [sq])]
                        else []))))"

fun join_bar :: "string list \<Rightarrow> string" where
  \<comment> \<open>\<^verbatim>\<open>" | ".join(xs)\<close>\<close>
  "join_bar [] = []"
| "join_bar [x] = x"
| "join_bar (x # xs) = x @ '' | '' @ join_bar xs"

definition generate_correction_summary :: "string \<Rightarrow> string \<Rightarrow> lt_error list \<Rightarrow> string" where
  \<comment> \<open>the test \<^verbatim>\<open>"GRAMMAR" in str(error_types)\<close> on the printed dictionary of category
      counts holds exactly when a category contains the word\<close>
  "generate_correction_summary original corrected errors =
     (if errors = [] \<and> original = corrected then ''Your sentence is grammatically correct.''
      else
        (let categories = map e_category errors;
             summary_parts =
               (if list_ex (\<lambda>c. contains c ''GRAMMAR'') categories then [''Fixed grammatical errors''] else [])
               @ (if list_ex (\<lambda>c. contains c ''TYPOS'') categories then [''Corrected spelling mistakes''] else [])
               @ (if list_ex (\<lambda>c. contains c ''STYLE'') categories then [''Improved writing style''] else [])
               @ (if contains (lower corrected) ''my name is'' \<and> \<not> contains (lower original) ''my name is''
                  then [''Restructured sentence to follow English word order''] else [])
               @ (if contains (lower corrected) ''to'' \<and> \<not> contains (lower original) ''to''
                  then [''Added missing infinitive marker 'to'' @ [sq]] else [])
               @ (if list_ex (\<lambda>article. contains (lower corrected) article) ['' a '', '' an '']
                     \<and> \<not> list_ex (\<lambda>article. contains (lower original) article) ['' a '', '' an '']
                  then [''Added missing articles''] else [])
         in if summary_parts \<noteq> [] then join_bar summary_parts @ ''.''
            else ''Rephrased to follow standard English syntax and subject-verb order.''))"

definition match_error :: "lt_match \<Rightarrow> lt_error" where
  "match_error m =
     \<lparr>e_error = lt_message m, e_suggestions = take 3 (lt_replacements m), e_context = lt_context m,
      e_offset = lt_offset m, e_errorLength = lt_errorLength m, e_rule_id = lt_ruleId m,
      e_category = lt_category m\<rparr>"

definition match_explanation :: "lt_match \<Rightarrow> explanation" where
  "match_explanation m =
     \<lparr>x_type = ''language_tool'', x_message = lt_message m,
      x_suggestions = Some (take 3 (lt_replacements m)), x_rule = lt_ruleId m, x_example = None\<rparr>"

definition collect_suggestions :: "explanation list \<Rightarrow> string list" where
  \<comment> \<open>at most two suggestions of each explanation that has some\<close>
  "collect_suggestions explanations =
     concat (map (\<lambda>exp. case x_suggestions exp of None \<Rightarrow> [] | Some ss \<Rightarrow> take 2 ss) explanations)"

definition explain_correction ::
  "lt_env \<Rightarrow> checker option \<Rightarrow> string \<Rightarrow> string \<Rightarrow> bool \<Rightarrow> (error + explanation_bundle) \<times> checker option" where
  \<comment> \<open>the result, and the module-level checker after the call\<close>
  "explain_correction env language_tool original corrected detailed =
     (if blank original then
        (Inr \<lparr>b_summary = ''No text provided.'', b_explanations = [], b_errors = [],
              b_suggestions = [], b_correction_applied = None\<rparr>, language_tool)
      else
        (let loaded = (if LANGUAGE_TOOL_AVAILABLE env then load_language_tool env language_tool
                       else (False, language_tool));
             matches = (if fst loaded then
                          (case snd loaded of
                             None \<Rightarrow> []
                           | Some tool \<Rightarrow> (case tool original of None \<Rightarrow> [] | Some ms \<Rightarrow> ms))
                        else []);
             errors = map match_error matches
         in ((case generate_rule_based_explanations original corrected of
               Inl x \<Rightarrow> Inl x
             | Inr rule_based \<Rightarrow>
                (let explanations = map match_explanation matches @ rule_based
                 in Inr \<lparr>b_summary =
                           (if original \<noteq> corrected then
                              generate_correction_summary original corrected errors
                            else ''Your sentence is grammatically correct.''),
                         b_explanations = explanations,
                         b_errors = errors,
                         b_suggestions = take 5 (set_to_list env (collect_suggestions explanations)),
                         b_correction_applied = Some (original \<noteq> corrected)\<rparr>)),
             snd loaded)))"

definition lt_env0 :: lt_env where
  \<comment> \<open>an environment without the style checker\<close>
  "lt_env0 = \<lparr>LANGUAGE_TOOL_AVAILABLE = False, lt_create = None, set_to_list = remdups\<rparr>"

section \<open>Environments with a service or a trained model\<close>

definition env_ai :: env where
  \<comment> \<open>the reference environment with an enhancement service whose completion for every
      prompt is \<open>I am Nishanth.\<close> between two spaces\<close>
  "env_ai = env0\<lparr>OPENAI_AVAILABLE := True, API_KEY := ''key'',
                 client := Some (\<lambda>system_prompt prompt max_tokens temperature.
                                    Some '' I am Nishanth. '')\<rparr>"

definition env_model :: env where
  \<comment> \<open>the reference environment with a trained model of \<^verbatim>\<open>grammar_corrector.py\<close> whose
      generation stops after the first word \<open>I\<close>\<close>
  "env_model = env0\<lparr>TRANSFORMERS_AVAILABLE := True,
                    grammar_model := Some (Pipeline (\<lambda>input_text. Some ''I''))\<rparr>"

definition env_t5 :: env where
  \<comment> \<open>the reference environment with a text-to-text pipeline in \<^verbatim>\<open>grammar_analysis.py\<close>
      that answers \<open>i have a pen\<close> to \<open>I has a pen.\<close> and stops after the first
      word on every other text\<close>
  "env_t5 = env0\<lparr>corrector := Some (\<lambda>input_text.
                      if input_text = ''grammar: I has a pen.'' then Some ''i have a pen''
                      else Some ''I'')\<rparr>"

definition env_spell :: env where
  \<comment> \<open>the reference environment with a spelling corrector that replaces the word
      \<open>loo\<close> of one text by \<open>too\<close>\<close>
  "env_spell = env0\<lparr>textblob_correct := (\<lambda>t.
                      if t = ''I am looser I loo a loose one.''
                      then ''I am looser I too a loose one.'' else t)\<rparr>"

section \<open>Facts about the string primitives\<close>

lemma isspace_code: "isspace c = ((of_char c :: nat) \<in> {9, 10, 11, 12, 13, 28, 29, 30, 31, 32})"
proof -
  have eq: "\<And>d. (c = d) = ((of_char c :: nat) = of_char d)" by simp
  show ?thesis unfolding isspace_def by (simp add: eq del: of_char_eq_iff)
qed

lemma not_isspace_upper_c: "\<not> isspace c \<Longrightarrow> \<not> isspace (upper_c c)"
  by (auto simp: isspace_code upper_c_def islower_def Let_def of_char_of)

lemma not_isspace_dot: "\<not> isspace CHR ''.''"
  by (simp add: isspace_def)

lemma strip_Nil [simp]: "strip [] = []"
  by (simp add: strip_def)

lemma last_dropWhile: "dropWhile P xs \<noteq> [] \<Longrightarrow> last (dropWhile P xs) = last xs"
  by (induction xs) auto

lemma strip_ends:
  assumes "strip s \<noteq> []"
  shows "\<not> isspace (hd (strip s))" and "\<not> isspace (last (strip s))"
proof -
  let ?d = "dropWhile isspace s"
  let ?e = "dropWhile isspace (rev ?d)"
  have e: "?e \<noteq> []" using assms by (simp add: strip_def)
  have d: "rev ?d \<noteq> []"
  proof
    assume "rev ?d = []"
    then have "?e = []" by (simp only: dropWhile.simps)
    with e show False ..
  qed
  have "last (strip s) = hd ?e" using e by (simp add: strip_def last_rev)
  moreover have "\<not> isspace (hd ?e)" using e by (rule hd_dropWhile)
  ultimately show "\<not> isspace (last (strip s))" by simp
  have "hd (strip s) = last ?e" using e by (simp add: strip_def hd_rev)
  also have "\<dots> = last (rev ?d)" using e by (rule last_dropWhile)
  also have "\<dots> = hd ?d" using d by (simp add: last_rev)
  finally have "hd (strip s) = hd ?d" .
  moreover have "\<not> isspace (hd ?d)" using d by (simp add: hd_dropWhile)
  ultimately show "\<not> isspace (hd (strip s))" by simp
qed

lemma strip_self:
  assumes "s = [] \<or> (\<not> isspace (hd s) \<and> \<not> isspace (last s))"
  shows "strip s = s"
proof (cases "s = []")
  case True
  then show ?thesis by simp
next
  case False
  with assms have h: "\<not> isspace (hd s)" and l: "\<not> isspace (last s)" by auto
  have 1: "dropWhile isspace s = s" using h by (simp add: dropWhile_eq_self_iff)
  have "hd (rev s) = last s" using False by (simp add: hd_rev)
  then have 2: "dropWhile isspace (rev s) = rev s" using l by (simp add: dropWhile_eq_self_iff)
  show ?thesis by (simp add: strip_def 1 2)
qed

lemma strip_idem: "strip (strip s) = strip s"
  by (rule strip_self) (use strip_ends [of s] in blast)

lemma not_blank_strip: "\<not> blank s \<Longrightarrow> strip s \<noteq> []"
  by (simp add: blank_def)

lemma blank_strip: "\<not> blank s \<Longrightarrow> \<not> blank (strip s)"
  by (simp add: blank_def strip_idem)

lemma cap_first_ends:
  assumes "s \<noteq> []" "\<not> isspace (hd s)" "\<not> isspace (last s)"
  shows "cap_first s \<noteq> []" "\<not> isspace (hd (cap_first s))" "\<not> isspace (last (cap_first s))"
  using assms by (cases s; auto simp: not_isspace_upper_c)+

lemma add_period_ends:
  assumes "s \<noteq> []" "\<not> isspace (hd s)" "\<not> isspace (last s)"
  shows "add_period s \<noteq> []" "\<not> isspace (hd (add_period s))" "\<not> isspace (last (add_period s))"
  using assms by (auto simp: add_period_def not_isspace_dot)

lemma strip_normalize_text: "strip (normalize_text c) = normalize_text c"
proof (cases "c = [] \<or> strip c = []")
  case True
  then show ?thesis by (auto simp: normalize_text_def add_period_def)
next
  case False
  then have s: "strip c \<noteq> []" by simp
  note e = strip_ends [OF s]
  note k = cap_first_ends [OF s e]
  note a = add_period_ends [OF k]
  have "strip (add_period (cap_first (strip c))) = add_period (cap_first (strip c))"
    by (rule strip_self) (use a in blast)
  with False show ?thesis by (simp add: normalize_text_def)
qed

section \<open>The results of \<^verbatim>\<open>correct_text\<close>\<close>

lemma rule_based_text_original: "t_original (rule_based_text env t) = t"
  by (simp add: rule_based_text_def Let_def split: sum.splits)

lemma rule_based_text_corrected:
  "t_corrected (rule_based_text env t) = t
   \<or> (\<exists>c. t_corrected (rule_based_text env t) = normalize_text c)"
  by (cases "correct_sentence_structure env t") (auto simp: rule_based_text_def Let_def)

lemma rule_based_text_method:
  "t_method (rule_based_text env t) = ''rule_based'' \<or> t_method (rule_based_text env t) = ''none''"
  by (simp add: rule_based_text_def Let_def split: sum.splits)

lemma rule_based_text_none:
  "t_method (rule_based_text env t) = ''none'' \<Longrightarrow> t_corrected (rule_based_text env t) = t"
  by (cases "correct_sentence_structure env t")
     (auto simp: rule_based_text_def Let_def split: if_splits)

lemma correct_text_cases:
  assumes "\<not> blank text"
  shows "(\<exists>c. correct_text env text use_model =
              \<lparr>t_original = strip text, t_corrected = strip c, t_method = ''t5_model''\<rparr>)
         \<or> correct_text env text use_model = rule_based_text env (strip text)"
  using assms by (auto simp: correct_text_def Let_def split: option.splits)

section \<open>Input normalization of \<^verbatim>\<open>correct_text\<close>\<close>

text \<open>
  Claim C10.  For every text with at least one non-whitespace character, the result of
  \<^verbatim>\<open>correct_text\<close> has the stripped text as its \<open>original\<close>, and neither the
  \<open>original\<close> nor the \<open>corrected\<close> field begins or ends with whitespace: stripping
  them again changes nothing.  This holds with and without a trained model, and
  whatever the tokenizers and the model return.
\<close>

theorem correct_text_strips_input:
  assumes "\<not> blank text"
  shows "t_original (correct_text env text use_model) = strip text
         \<and> strip (t_original (correct_text env text use_model))
             = t_original (correct_text env text use_model)
         \<and> strip (t_corrected (correct_text env text use_model))
             = t_corrected (correct_text env text use_model)"
proof -
  let ?r = "correct_text env text use_model"
  from correct_text_cases [OF assms, of env use_model]
  consider (model) c where "?r = \<lparr>t_original = strip text, t_corrected = strip c, t_method = ''t5_model''\<rparr>"
    | (rules) "?r = rule_based_text env (strip text)"
    by blast
  then show ?thesis
  proof cases
    case model
    then show ?thesis by (simp add: strip_idem)
  next
    case rules
    have o: "t_original ?r = strip text" by (simp add: rules rule_based_text_original)
    from rule_based_text_corrected [of env "strip text"]
    have "strip (t_corrected ?r) = t_corrected ?r"
      by (auto simp: rules strip_idem strip_normalize_text)
    with o show ?thesis by (simp add: strip_idem)
  qed
qed

theorem correct_text_strips_input_witness:
  "\<not> blank ''  hello '' \<and> t_original (correct_text env0 ''  hello '' True) = ''hello''"
proof -
  have h: "\<not> blank ''  hello ''" by code_simp
  have s: "strip ''  hello '' = ''hello''" by code_simp
  from correct_text_strips_input [OF h, of env0 True] show ?thesis using h s by simp
qed

section \<open>One-sentence texts without a parser\<close>

text \<open>
  Without a parser, and when the tokenizer returns the text as its only sentence, the
  analysis of a stripped text is the rule-based detection on that sentence followed by
  the correction of that sentence.
\<close>

lemma analyze_single:
  assumes "\<not> blank s" "strip s = s" "nlp env = None" "sent_tokenize env s = [s]"
    and "rulebased (word_tokenize env (lower s)) s = Inr es"
  shows "analyze_sentence_structure env s =
           (if es = [] then Inr ([], [])
            else (case generate_structure_correction env s es of
                    Inl x \<Rightarrow> Inl x
                  | Inr c \<Rightarrow>
                     (if c \<noteq> [] \<and> c \<noteq> s then
                        Inr (es, [\<lparr>k_original = s, k_corrected = c,
                                   k_errors = map f_type (filter (\<lambda>e. f_sentence e = Some s) es)\<rparr>])
                      else Inr (es, []))))"
proof -
  have s: "s \<noteq> []" using assms(1) by (auto simp: blank_def)
  have d: "detect_structure_errors env s = Inr es"
    using assms(3,5) by (simp add: detect_structure_errors_def detect_structure_errors_rulebased_def)
  show ?thesis
    using assms(1,2,4) s d
    by (simp add: analyze_sentence_structure_def Let_def split: sum.splits)
qed

lemma css_unfold:
  assumes "\<not> blank s" and "analyze_sentence_structure env s = Inr (es, ks)"
  shows "correct_sentence_structure env s =
          (let (corrected_text, changes) = apply_corrections ks s []
             in if corrected_text = s \<and> es \<noteq> [] then
                  (case pick_error es of
                     None \<Rightarrow>
                       Inr \<lparr>s_original = s, s_corrected = corrected_text, s_changes = changes,
                            s_structure_errors = Some es\<rparr>
                   | Some e \<Rightarrow>
                       Inr \<lparr>s_original = s, s_corrected = fst (intelligent_correction s e),
                            s_changes = changes @ snd (intelligent_correction s e),
                            s_structure_errors = Some es\<rparr>)
                else
                  Inr \<lparr>s_original = s, s_corrected = corrected_text, s_changes = changes,
                       s_structure_errors = Some es\<rparr>)"
  using assms by (simp add: correct_sentence_structure_def)

lemma correct_text_no_model:
  assumes "\<not> blank s" "strip s = s" "grammar_model env = None"
  shows "correct_text env s use_model = rule_based_text env s"
  using assms by (simp add: correct_text_def load_grammar_model_def)

lemma correct_grammar_no_ai:
  assumes "\<not> blank s" "\<not> is_ai_available env"
    and "correct_sentence_structure env s = Inr r"
  shows "correct_grammar env s use_ai =
           (if s_corrected r \<noteq> s \<and> s_changes r \<noteq> [] then
              Inr \<lparr>g_original = s, g_corrected = s_corrected r, g_changes = s_changes r,
                   g_errors_found = Some (length (case s_structure_errors r of
                                                    None \<Rightarrow> [] | Some es \<Rightarrow> es)),
                   g_method = Some ''rule_based''\<rparr>
            else composite env s r)"
  using assms by (simp add: correct_grammar_def ai_stage_def)

section \<open>Fallback completeness\<close>

lemma rulebased_nishanth:
  "rulebased [''i'', ''nishanth'', ''name''] ''i nishanth name'' =
     Inr [structure_finding ''word_order''
            ''Incorrect sentence structure. Use 'My name is [name]' format'' ''i nishanth name''
            ''high'' ''My name is [name]'',
          structure_finding ''missing_verb'' ''Missing verb after subject'' ''i nishanth name''
            ''medium'' ''Add a verb like 'is', 'am', 'are', 'have', etc.'']"
  by code_simp

lemma generate_nishanth:
  "generate_structure_correction env ''i nishanth name''
     [structure_finding ''word_order''
        ''Incorrect sentence structure. Use 'My name is [name]' format'' ''i nishanth name''
        ''high'' ''My name is [name]'',
      structure_finding ''missing_verb'' ''Missing verb after subject'' ''i nishanth name''
        ''medium'' ''Add a verb like 'is', 'am', 'are', 'have', etc.'']
   = Inr ''My name is Nishanth.''"
  by code_simp

lemma css_nishanth:
  assumes "nlp env = None"
    and "sent_tokenize env ''i nishanth name'' = [''i nishanth name'']"
    and "word_tokenize env ''i nishanth name'' = [''i'', ''nishanth'', ''name'']"
  shows "correct_sentence_structure env ''i nishanth name'' =
           Inr \<lparr>s_original = ''i nishanth name'', s_corrected = ''My name is Nishanth.'',
                s_changes = [structure_change ''i nishanth name'' ''My name is Nishanth.''
                               [''word_order'', ''missing_verb'']],
                s_structure_errors = Some
                  [structure_finding ''word_order''
                     ''Incorrect sentence structure. Use 'My name is [name]' format''
                     ''i nishanth name'' ''high'' ''My name is [name]'',
                   structure_finding ''missing_verb'' ''Missing verb after subject''
                     ''i nishanth name'' ''medium''
                     ''Add a verb like 'is', 'am', 'are', 'have', etc.'']\<rparr>"
proof -
  let ?s = "''i nishanth name''"
  let ?es = "[structure_finding ''word_order''
                ''Incorrect sentence structure. Use 'My name is [name]' format'' ?s ''high''
                ''My name is [name]'',
              structure_finding ''missing_verb'' ''Missing verb after subject'' ?s ''medium''
                ''Add a verb like 'is', 'am', 'are', 'have', etc.'']"
  let ?k = "\<lparr>k_original = ?s, k_corrected = ''My name is Nishanth.'',
             k_errors = [''word_order'', ''missing_verb'']\<rparr>"
  have nb: "\<not> blank ?s" by code_simp
  have st: "strip ?s = ?s" by code_simp
  have lo: "lower ?s = ?s" by code_simp
  have rb: "rulebased (word_tokenize env (lower ?s)) ?s = Inr ?es"
    by (simp only: lo assms(3) rulebased_nishanth)
  have an: "analyze_sentence_structure env ?s = Inr (?es, [?k])"
    unfolding analyze_single [OF nb st assms(1) assms(2) rb] generate_nishanth
    by (simp add: structure_finding_def)
  have ap: "apply_corrections [?k] ?s [] =
              (''My name is Nishanth.'',
               [structure_change ?s ''My name is Nishanth.'' [''word_order'', ''missing_verb'']])"
    by code_simp
  show ?thesis
    unfolding css_unfold [OF nb an] ap by simp
qed

text \<open>
  Claim C6.  With the enhancement service unavailable, no trained model and no parser,
  and with the tokenizers splitting \<open>i nishanth name\<close> into one sentence of three
  words, both entry points return \<open>My name is Nishanth.\<close> with the method tag
  \<open>rule_based\<close>.
\<close>

theorem fallback_completeness:
  assumes "nlp env = None"
    and "sent_tokenize env ''i nishanth name'' = [''i nishanth name'']"
    and "word_tokenize env ''i nishanth name'' = [''i'', ''nishanth'', ''name'']"
    and "grammar_model env = None"
    and "\<not> is_ai_available env"
  shows "correct_text env ''i nishanth name'' use_model =
           \<lparr>t_original = ''i nishanth name'', t_corrected = ''My name is Nishanth.'',
            t_method = ''rule_based''\<rparr>
         \<and> correct_grammar env ''i nishanth name'' use_ai =
             Inr \<lparr>g_original = ''i nishanth name'', g_corrected = ''My name is Nishanth.'',
                  g_changes = [structure_change ''i nishanth name'' ''My name is Nishanth.''
                                 [''word_order'', ''missing_verb'']],
                  g_errors_found = Some 2, g_method = Some ''rule_based''\<rparr>"
proof -
  let ?s = "''i nishanth name''"
  have nb: "\<not> blank ?s" by code_simp
  have st: "strip ?s = ?s" by code_simp
  have no: "normalize_text ''My name is Nishanth.'' = ''My name is Nishanth.''" by code_simp
  note css = css_nishanth [OF assms(1-3)]
  have 1: "correct_text env ?s use_model =
             \<lparr>t_original = ?s, t_corrected = ''My name is Nishanth.'', t_method = ''rule_based''\<rparr>"
    unfolding correct_text_no_model [OF nb st assms(4)]
    by (simp add: rule_based_text_def css no)
  have 2: "correct_grammar env ?s use_ai =
             Inr \<lparr>g_original = ?s, g_corrected = ''My name is Nishanth.'',
                  g_changes = [structure_change ?s ''My name is Nishanth.''
                                 [''word_order'', ''missing_verb'']],
                  g_errors_found = Some 2, g_method = Some ''rule_based''\<rparr>"
    unfolding correct_grammar_no_ai [OF nb assms(5) css] by simp
  from 1 2 show ?thesis by simp
qed

theorem fallback_completeness_witness:
  "nlp env0 = None
   \<and> sent_tokenize env0 ''i nishanth name'' = [''i nishanth name'']
   \<and> word_tokenize env0 ''i nishanth name'' = [''i'', ''nishanth'', ''name'']
   \<and> grammar_model env0 = None
   \<and> \<not> is_ai_available env0
   \<and> t_corrected (correct_text env0 ''i nishanth name'' True) = ''My name is Nishanth.''
   \<and> t_method (correct_text env0 ''i nishanth name'' True) = ''rule_based''"
proof -
  have h1: "nlp env0 = None" by (simp add: env0_def)
  have h2: "sent_tokenize env0 ''i nishanth name'' = [''i nishanth name'']"
    by (simp add: env0_def)
  have h3: "word_tokenize env0 ''i nishanth name'' = [''i'', ''nishanth'', ''name'']"
    by code_simp
  have h4: "grammar_model env0 = None" by (simp add: env0_def)
  have h5: "\<not> is_ai_available env0" by (simp add: is_ai_available_def env0_def)
  from fallback_completeness [OF h1 h2 h3 h4 h5, of True True]
  show ?thesis using h1 h2 h3 h4 h5 by simp
qed

section \<open>Stage priority of the orchestrator\<close>

lemma generate_ai_response_stripped:
  "generate_ai_response env p sp mt te = Some c \<Longrightarrow> strip c = c"
  by (auto simp: generate_ai_response_def strip_idem split: option.splits if_splits)

text \<open>
  Claim C1.  When the enhancement service is available and its completion \<open>c\<close> for the
  prompt built from a non-blank text is non-empty and differs from the text, the
  orchestrator, called with the service enabled, returns \<open>c\<close> as the corrected text
  with the method tag \<open>ai_enhanced\<close>.  The completion is already stripped.  The
  structural corrector is run only to list its changes and count its findings: its own
  corrected text is not used, and no later stage runs.  The only way not to return this
  result is an exception of the structural corrector, which the orchestrator then raises.
\<close>

theorem ai_stage_priority:
  assumes "\<not> blank text"
    and "is_ai_available env"
    and "generate_ai_response env (ai_prompt text) (Some ai_system_prompt) 150 (3 / 10) = Some c"
    and "c \<noteq> []"
    and "c \<noteq> text"
  shows "strip c = c
         \<and> correct_grammar env text True =
             (case correct_sentence_structure env text of
                Inl x \<Rightarrow> Inl x
              | Inr structure_check \<Rightarrow>
                 Inr \<lparr>g_original = text,
                      g_corrected = c,
                      g_changes =
                        (if lower c \<noteq> lower text then
                           [message_change ''ai_correction'' text c
                              ''AI-enhanced grammar correction applied'']
                         else [])
                        @ s_changes structure_check,
                      g_errors_found =
                        Some (length (case s_structure_errors structure_check of
                                        None \<Rightarrow> [] | Some es \<Rightarrow> es)),
                      g_method = Some ''ai_enhanced''\<rparr>)"
proof -
  have s: "strip c = c" by (rule generate_ai_response_stripped [OF assms(3)])
  show ?thesis
    using assms s
    by (simp add: correct_grammar_def ai_stage_def split: sum.splits)
qed

theorem ai_stage_priority_witness:
  "\<not> blank ''i nishanth name''
   \<and> is_ai_available env_ai
   \<and> generate_ai_response env_ai (ai_prompt ''i nishanth name'') (Some ai_system_prompt) 150 (3 / 10)
       = Some ''I am Nishanth.''
   \<and> map_sum id s_corrected (correct_sentence_structure env_ai ''i nishanth name'')
       = Inr ''My name is Nishanth.''
   \<and> map_sum id g_corrected (correct_grammar env_ai ''i nishanth name'' True) = Inr ''I am Nishanth.''
   \<and> map_sum id g_method (correct_grammar env_ai ''i nishanth name'' True) = Inr (Some ''ai_enhanced'')"
proof -
  let ?s = "''i nishanth name''"
  have h1: "\<not> blank ?s" by code_simp
  have h2: "is_ai_available env_ai" by (simp add: is_ai_available_def get_client_def env_ai_def)
  have st: "strip '' I am Nishanth. '' = ''I am Nishanth.''" by code_simp
  have h3: "generate_ai_response env_ai (ai_prompt ?s) (Some ai_system_prompt) 150 (3 / 10)
              = Some ''I am Nishanth.''"
    by (simp add: generate_ai_response_def get_client_def env_ai_def st)
  have css: "correct_sentence_structure env_ai ?s =
           Inr \<lparr>s_original = ''i nishanth name'', s_corrected = ''My name is Nishanth.'',
                s_changes = [structure_change ''i nishanth name'' ''My name is Nishanth.''
                               [''word_order'', ''missing_verb'']],
                s_structure_errors = Some
                  [structure_finding ''word_order''
                     ''Incorrect sentence structure. Use 'My name is [name]' format''
                     ''i nishanth name'' ''high'' ''My name is [name]'',
                   structure_finding ''missing_verb'' ''Missing verb after subject''
                     ''i nishanth name'' ''medium''
                     ''Add a verb like 'is', 'am', 'are', 'have', etc.'']\<rparr>"
  proof (rule css_nishanth)
    show "nlp env_ai = None" by (simp add: env_ai_def env0_def)
    show "sent_tokenize env_ai ?s = [?s]" by (simp add: env_ai_def env0_def)
    show "word_tokenize env_ai ?s = [''i'', ''nishanth'', ''name'']" by code_simp
  qed
  from ai_stage_priority [OF h1 h2 h3]
  show ?thesis using h1 h2 h3 by (simp add: css)
qed

section \<open>Blank input\<close>

text \<open>
  The orchestrator's result for a text of two spaces has no method tag at all: it is
  not the tag \<open>none\<close>.
\<close>

theorem blank_grammar_no_method:
  "blank ''  ''
   \<and> map_sum id g_method (correct_grammar env0 ''  '' True) \<noteq> Inr (Some ''none'')"
proof -
  have b: "blank ''  ''" by code_simp
  then show ?thesis by (simp add: correct_grammar_def)
qed

text \<open>
  Claim C3.  For an empty or whitespace-only text neither entry point raises;
  \<^verbatim>\<open>correct_text\<close> returns the text as original and corrected with the method tag
  \<open>none\<close>, and \<^verbatim>\<open>correct_grammar\<close> returns the text as original and corrected with
  an empty change list and without a method tag.
\<close>

theorem empty_input:
  assumes "blank text"
  shows "correct_text env text use_model =
           \<lparr>t_original = text, t_corrected = text, t_method = ''none''\<rparr>
         \<and> correct_grammar env text use_ai =
             Inr \<lparr>g_original = text, g_corrected = text, g_changes = [],
                  g_errors_found = None, g_method = None\<rparr>"
  using assms by (simp add: correct_text_def correct_grammar_def)

theorem empty_input_witness:
  "blank [CHR '' '', CHR 0x09, CHR 0x0A]
   \<and> t_method (correct_text env0 [CHR '' '', CHR 0x09, CHR 0x0A] True) = ''none''
   \<and> correct_grammar env0 [CHR '' '', CHR 0x09, CHR 0x0A] True =
        Inr \<lparr>g_original = [CHR '' '', CHR 0x09, CHR 0x0A],
             g_corrected = [CHR '' '', CHR 0x09, CHR 0x0A], g_changes = [],
             g_errors_found = None, g_method = None\<rparr>"
proof -
  have h: "blank [CHR '' '', CHR 0x09, CHR 0x0A]" by code_simp
  from empty_input [OF h, of env0 True True] show ?thesis using h by simp
qed

section \<open>The method tags\<close>

lemma ai_stage_method: "ai_stage env text = Some r \<Longrightarrow> g_method r = Some ''ai_enhanced''"
  by (auto simp: ai_stage_def split: if_splits option.splits sum.splits)

lemma composite_method: "composite env text sc = Inr r \<Longrightarrow> g_method r = None"
  by (auto simp: composite_def Let_def split: sum.splits)

lemma correct_text_method:
  "t_method (correct_text env text use_model) \<in> set [''t5_model'', ''rule_based'', ''none'']"
proof (cases "blank text")
  case True
  then show ?thesis by (simp add: correct_text_def)
next
  case False
  from correct_text_cases [OF False, of env use_model] rule_based_text_method [of env "strip text"]
  show ?thesis by auto
qed

lemma correct_grammar_method:
  assumes "correct_grammar env text use_ai = Inr r"
  shows "g_method r \<in> set [Some ''ai_enhanced'', Some ''rule_based'', None]"
proof (cases "blank text")
  case True
  with assms show ?thesis by (auto simp: correct_grammar_def)
next
  case False
  show ?thesis
  proof (cases "if use_ai then ai_stage env text else None")
    case (Some a)
    then have "ai_stage env text = Some a" by (simp split: if_splits)
    from ai_stage_method [OF this] assms False Some show ?thesis
      by (simp add: correct_grammar_def)
  next
    case None
    show ?thesis
    proof (cases "correct_sentence_structure env text")
      case (Inl x)
      with assms False None show ?thesis by (simp add: correct_grammar_def)
    next
      case (Inr sc)
      show ?thesis
      proof (cases "s_corrected sc \<noteq> text \<and> s_changes sc \<noteq> []")
        case True
        with assms False None Inr show ?thesis by (auto simp: correct_grammar_def)
      next
        case f: False
        with assms False None Inr have "composite env text sc = Inr r"
          by (auto simp: correct_grammar_def)
        from composite_method [OF this] show ?thesis by simp
      qed
    qed
  qed
qed

text \<open>
  With a trained model whose output differs from the text, \<^verbatim>\<open>correct_text\<close> returns
  the method tag \<open>t5_model\<close>, which is not one of \<open>ai_enhanced\<close>, \<open>structural\<close>,
  \<open>model_based\<close>, \<open>rule_based\<close>, \<open>none\<close>.
\<close>

theorem model_tag_outside_list:
  "t_method (correct_text env_model ''He go home.'' True) = ''t5_model''
   \<and> ''t5_model'' \<notin> set [''ai_enhanced'', ''structural'', ''model_based'', ''rule_based'', ''none'']"
proof -
  have "correct_text env_model ''He go home.'' True =
          \<lparr>t_original = ''He go home.'', t_corrected = ''I'', t_method = ''t5_model''\<rparr>"
    by code_simp
  then show ?thesis by simp
qed

text \<open>
  Claim C8.  The method tag of \<^verbatim>\<open>correct_text\<close> is always one of \<open>t5_model\<close>,
  \<open>rule_based\<close>, \<open>none\<close>.  A result of \<^verbatim>\<open>correct_grammar\<close> has the tag
  \<open>ai_enhanced\<close> or \<open>rule_based\<close>, or no tag at all.  The tags \<open>structural\<close> and
  \<open>model_based\<close> are never produced.
\<close>

theorem method_tag_closure:
  assumes "correct_grammar env text use_ai = Inr r"
  shows "t_method (correct_text env text use_model) \<in> set [''t5_model'', ''rule_based'', ''none'']
         \<and> g_method r \<in> set [Some ''ai_enhanced'', Some ''rule_based'', None]"
  using correct_text_method [of env "text" use_model] correct_grammar_method [OF assms]
  by simp

theorem method_tag_closure_witness:
  "correct_grammar env0 ''hello'' True =
     Inr \<lparr>g_original = ''hello'', g_corrected = ''Hello.'',
          g_changes = [structure_change ''hello'' ''Hello.'' [''sentence_fragment'']],
          g_errors_found = Some 1, g_method = Some ''rule_based''\<rparr>
   \<and> t_method (correct_text env0 ''hello'' True) \<in> set [''t5_model'', ''rule_based'', ''none'']"
proof -
  have h: "correct_grammar env0 ''hello'' True =
     Inr \<lparr>g_original = ''hello'', g_corrected = ''Hello.'',
          g_changes = [structure_change ''hello'' ''Hello.'' [''sentence_fragment'']],
          g_errors_found = Some 1, g_method = Some ''rule_based''\<rparr>"
    by code_simp
  from method_tag_closure [OF h, of True] show ?thesis using h by simp
qed

section \<open>The model stage of the orchestrator\<close>

lemma t5_stage_commit:
  assumes "t5_stage env text st \<noteq> st"
  shows "fst st = text
         \<and> (\<exists>out. t5_output env text = Some out \<and> out \<noteq> text \<and> length text < 2 * length out
                \<and> t5_stage env text st =
                    (out, snd st @ [message_change ''auto_correction'' text out
                                      ''AI-powered grammar correction''])
                \<and> textblob_stage env text (t5_stage env text st) = t5_stage env text st)"
  using assms
  by (auto simp: t5_stage_def textblob_stage_def split: option.splits if_splits)

text \<open>
  \<^verbatim>\<open>correct_text\<close> has no test on the length of the model's output: an output of one
  character is returned for a text of twelve.
\<close>

lemma correct_text_commits_short_output:
  "correct_text env_model ''I has a pen.'' True =
     \<lparr>t_original = ''I has a pen.'', t_corrected = ''I'', t_method = ''t5_model''\<rparr>"
  by code_simp

text \<open>
  In \<^verbatim>\<open>correct_grammar\<close> an accepted output of the pipeline is not the end: the
  formatting stage still capitalizes it and adds the period, and the result has no
  method tag.
\<close>

theorem model_output_untagged:
  "t5_output env_t5 ''I has a pen.'' = Some ''i have a pen''
   \<and> correct_grammar env_t5 ''I has a pen.'' True =
       Inr \<lparr>g_original = ''I has a pen.'', g_corrected = ''I have a pen.'',
            g_changes = [message_change ''auto_correction'' ''I has a pen.'' ''i have a pen''
                           ''AI-powered grammar correction'',
                         message_change ''formatting'' ''i have a pen'' ''I have a pen.''
                           ''Capitalization and punctuation fixes''],
            g_errors_found = Some 0, g_method = None\<rparr>"
  by code_simp

text \<open>
  Claim C5.  In the composite path of \<^verbatim>\<open>correct_grammar\<close> the result has no method
  tag, and its corrected text is what the formatting stage makes of the text left by the
  fragment edits, the model stage and the spelling stage.  The model stage changes
  something only if no fragment edit changed the text and the pipeline's output differs
  from the text and is longer than half of it; the output then replaces the text with an
  \<open>auto_correction\<close> change, and the spelling stage leaves it alone.  Any other output
  is rejected.
\<close>

theorem model_stage_guard:
  assumes "composite env text structure_correction = Inr r"
  shows "g_method r = None
         \<and> (\<exists>errors st.
               detect_grammar_errors env text = Inr errors
             \<and> apply_fragments (sort_desc errors)
                  (s_corrected structure_correction, s_changes structure_correction) = Inr st
             \<and> g_corrected r
                 = fst (formatting_stage env (textblob_stage env text (t5_stage env text st)))
             \<and> (t5_stage env text st \<noteq> st \<longrightarrow>
                  fst st = text
                \<and> (\<exists>out. t5_output env text = Some out \<and> out \<noteq> text
                       \<and> length text < 2 * length out
                       \<and> t5_stage env text st =
                           (out, snd st @ [message_change ''auto_correction'' text out
                                             ''AI-powered grammar correction''])
                       \<and> textblob_stage env text (t5_stage env text st)
                           = t5_stage env text st)))"
proof -
  from assms obtain errors st where
    e: "detect_grammar_errors env text = Inr errors" and
    a: "apply_fragments (sort_desc errors)
          (s_corrected structure_correction, s_changes structure_correction) = Inr st" and
    r: "r = \<lparr>g_original = text,
             g_corrected = fst (formatting_stage env (textblob_stage env text (t5_stage env text st))),
             g_changes = snd (formatting_stage env (textblob_stage env text (t5_stage env text st))),
             g_errors_found = Some (length errors), g_method = None\<rparr>"
    by (auto simp: composite_def Let_def split: sum.splits)
  have g: "g_method r = None" using r by simp
  have c: "g_corrected r
             = fst (formatting_stage env (textblob_stage env text (t5_stage env text st)))"
    using r by simp
  have "t5_stage env text st \<noteq> st \<longrightarrow>
          fst st = text
        \<and> (\<exists>out. t5_output env text = Some out \<and> out \<noteq> text
               \<and> length text < 2 * length out
               \<and> t5_stage env text st =
                   (out, snd st @ [message_change ''auto_correction'' text out
                                     ''AI-powered grammar correction''])
               \<and> textblob_stage env text (t5_stage env text st) = t5_stage env text st)"
    using t5_stage_commit by blast
  with g e a c show ?thesis by blast
qed

theorem model_stage_guard_witness:
  "composite env_t5 ''I has a pen.''
     \<lparr>s_original = ''I has a pen.'', s_corrected = ''I has a pen.'', s_changes = [],
      s_structure_errors = Some []\<rparr>
     = Inr \<lparr>g_original = ''I has a pen.'', g_corrected = ''I have a pen.'',
            g_changes = [message_change ''auto_correction'' ''I has a pen.'' ''i have a pen''
                           ''AI-powered grammar correction'',
                         message_change ''formatting'' ''i have a pen'' ''I have a pen.''
                           ''Capitalization and punctuation fixes''],
            g_errors_found = Some 0, g_method = None\<rparr>
   \<and> t5_stage env_t5 ''I has a pen.'' (''I has a pen.'', []) \<noteq> (''I has a pen.'', [])
   \<and> t5_output env_t5 ''I has a pen.'' = Some ''i have a pen''
   \<and> length ''I has a pen.'' < 2 * length ''i have a pen''"
proof -
  have h: "composite env_t5 ''I has a pen.''
     \<lparr>s_original = ''I has a pen.'', s_corrected = ''I has a pen.'', s_changes = [],
      s_structure_errors = Some []\<rparr>
     = Inr \<lparr>g_original = ''I has a pen.'', g_corrected = ''I have a pen.'',
            g_changes = [message_change ''auto_correction'' ''I has a pen.'' ''i have a pen''
                           ''AI-powered grammar correction'',
                         message_change ''formatting'' ''i have a pen'' ''I have a pen.''
                           ''Capitalization and punctuation fixes''],
            g_errors_found = Some 0, g_method = None\<rparr>"
    by code_simp
  have s: "t5_stage env_t5 ''I has a pen.'' (''I has a pen.'', []) \<noteq> (''I has a pen.'', [])"
    by code_simp
  have o: "t5_output env_t5 ''I has a pen.'' = Some ''i have a pen''" by code_simp
  from model_stage_guard [OF h] show ?thesis using h s o by simp
qed

section \<open>The missing infinitive\<close>

lemma rulebased_football:
  "rulebased [''i'', ''like'', ''play'', ''football'', ''.''] ''I like play football.'' =
     Inr [structure_finding ''missing_verb'' ''Missing verb after subject''
            ''I like play football.'' ''medium''
            ''Add a verb like 'is', 'am', 'are', 'have', etc.'']"
  by code_simp

lemma generate_football:
  assumes "textblob_correct env ''I like play football.'' = ''I like play football.''"
  shows "generate_structure_correction env ''I like play football.''
     [structure_finding ''missing_verb'' ''Missing verb after subject''
        ''I like play football.'' ''medium''
        ''Add a verb like 'is', 'am', 'are', 'have', etc.'']
   = Inr ''I like play football.''"
proof -
  let ?s = "''I like play football.''"
  let ?e = "structure_finding ''missing_verb'' ''Missing verb after subject'' ?s ''medium''
              ''Add a verb like 'is', 'am', 'are', 'have', etc.''"
  have gl: "gsc_loop ?s (sort_desc (filter (\<lambda>e. f_sentence e = Some ?s) [?e])) ?s = Inr ?s"
    by code_simp
  have no: "normalize_text ?s = ?s" by code_simp
  show ?thesis
    unfolding generate_structure_correction_def Let_def gl
    by (simp only: assms no sum.case if_True if_False simp_thms)
qed

lemma css_football:
  assumes "nlp env = None"
    and "sent_tokenize env ''I like play football.'' = [''I like play football.'']"
    and "word_tokenize env ''i like play football.'' = [''i'', ''like'', ''play'', ''football'', ''.'']"
    and "textblob_correct env ''I like play football.'' = ''I like play football.''"
  shows "analyze_sentence_structure env ''I like play football.'' =
           Inr ([structure_finding ''missing_verb'' ''Missing verb after subject''
                   ''I like play football.'' ''medium''
                   ''Add a verb like 'is', 'am', 'are', 'have', etc.''], [])
         \<and> correct_sentence_structure env ''I like play football.'' =
             Inr \<lparr>s_original = ''I like play football.'',
                  s_corrected = ''Add a verb like 'is', 'am', 'are', 'have', etc.'',
                  s_changes = [structure_change ''I like play football.''
                                 ''Add a verb like 'is', 'am', 'are', 'have', etc.''
                                 [''missing_verb'']],
                  s_structure_errors = Some
                    [structure_finding ''missing_verb'' ''Missing verb after subject''
                       ''I like play football.'' ''medium''
                       ''Add a verb like 'is', 'am', 'are', 'have', etc.'']\<rparr>"
proof -
  let ?s = "''I like play football.''"
  let ?e = "structure_finding ''missing_verb'' ''Missing verb after subject'' ?s ''medium''
              ''Add a verb like 'is', 'am', 'are', 'have', etc.''"
  have nb: "\<not> blank ?s" by code_simp
  have st: "strip ?s = ?s" by code_simp
  have lo: "lower ?s = ''i like play football.''" by code_simp
  have rb: "rulebased (word_tokenize env (lower ?s)) ?s = Inr [?e]"
    by (simp only: lo assms(3) rulebased_football)
  have an: "analyze_sentence_structure env ?s = Inr ([?e], [])"
    unfolding analyze_single [OF nb st assms(1) assms(2) rb] generate_football [OF assms(4)]
    by simp
  have ap: "apply_corrections [] ?s [] = (?s, [])" by code_simp
  have pk: "pick_error [?e] = Some ?e" by code_simp
  have ic: "intelligent_correction ?s ?e =
              (''Add a verb like 'is', 'am', 'are', 'have', etc.'',
               [structure_change ?s ''Add a verb like 'is', 'am', 'are', 'have', etc.''
                  [''missing_verb'']])"
    by code_simp
  have "correct_sentence_structure env ?s =
          Inr \<lparr>s_original = ?s,
               s_corrected = ''Add a verb like 'is', 'am', 'are', 'have', etc.'',
               s_changes = [structure_change ?s
                              ''Add a verb like 'is', 'am', 'are', 'have', etc.''
                              [''missing_verb'']],
               s_structure_errors = Some [?e]\<rparr>"
    unfolding css_unfold [OF nb an] ap by (simp add: pk ic)
  with an show ?thesis by simp
qed

text \<open>
  Without the final period the sentence is matched by the pattern of the catenative
  verbs, and \<open>to\<close> is inserted.
\<close>

lemma missing_infinitive_without_period:
  "correct_text env0 ''I like play football'' True =
     \<lparr>t_original = ''I like play football'', t_corrected = ''I like to play football.'',
      t_method = ''rule_based''\<rparr>"
  by code_simp

text \<open>
  Claim C7.  For \<open>I like play football.\<close>, with its final period, the patterns of the
  catenative verbs do not match, because they end in \<open>$\<close> after a word.  Without a
  parser, a trained model and the enhancement service, when the tokenizers split the
  text into one sentence of four words and the period and the spelling corrector leaves
  it alone, the only finding is \<open>missing_verb\<close>, there is no \<open>missing_infinitive\<close>
  finding, and both entry points return the advice of that finding,
  \<open>Add a verb like 'is', 'am', 'are', 'have', etc.\<close>, as the corrected text.
\<close>

theorem missing_infinitive_not_found:
  assumes "nlp env = None"
    and "sent_tokenize env ''I like play football.'' = [''I like play football.'']"
    and "word_tokenize env ''i like play football.'' = [''i'', ''like'', ''play'', ''football'', ''.'']"
    and "textblob_correct env ''I like play football.'' = ''I like play football.''"
    and "grammar_model env = None"
    and "\<not> is_ai_available env"
  shows "analyze_sentence_structure env ''I like play football.'' =
           Inr ([structure_finding ''missing_verb'' ''Missing verb after subject''
                   ''I like play football.'' ''medium''
                   ''Add a verb like 'is', 'am', 'are', 'have', etc.''], [])
         \<and> correct_text env ''I like play football.'' use_model =
             \<lparr>t_original = ''I like play football.'',
              t_corrected = ''Add a verb like 'is', 'am', 'are', 'have', etc.'',
              t_method = ''rule_based''\<rparr>
         \<and> map_sum id g_corrected (correct_grammar env ''I like play football.'' use_ai)
             = Inr ''Add a verb like 'is', 'am', 'are', 'have', etc.''"
proof -
  let ?s = "''I like play football.''"
  let ?a = "''Add a verb like 'is', 'am', 'are', 'have', etc.''"
  have nb: "\<not> blank ?s" by code_simp
  have st: "strip ?s = ?s" by code_simp
  have no: "normalize_text ?a = ?a" by code_simp
  have ne: "?a \<noteq> ?s" by simp
  note css = css_football [OF assms(1-4)]
  have 1: "correct_text env ?s use_model =
             \<lparr>t_original = ?s, t_corrected = ?a, t_method = ''rule_based''\<rparr>"
    unfolding correct_text_no_model [OF nb st assms(5)]
    by (simp add: rule_based_text_def css no)
  have 2: "map_sum id g_corrected (correct_grammar env ?s use_ai) = Inr ?a"
    unfolding correct_grammar_no_ai [OF nb assms(6) conjunct2 [OF css]] by simp
  from css 1 2 show ?thesis by simp
qed

theorem missing_infinitive_not_found_witness:
  "nlp env0 = None
   \<and> sent_tokenize env0 ''I like play football.'' = [''I like play football.'']
   \<and> word_tokenize env0 ''i like play football.'' = [''i'', ''like'', ''play'', ''football'', ''.'']
   \<and> textblob_correct env0 ''I like play football.'' = ''I like play football.''
   \<and> grammar_model env0 = None
   \<and> \<not> is_ai_available env0
   \<and> t_corrected (correct_text env0 ''I like play football.'' True)
       = ''Add a verb like 'is', 'am', 'are', 'have', etc.''
   \<and> t_corrected (correct_text env0 ''I like play football.'' True) \<noteq> ''I like to play football.''"
proof -
  have h1: "nlp env0 = None" by (simp add: env0_def)
  have h2: "sent_tokenize env0 ''I like play football.'' = [''I like play football.'']"
    by (simp add: env0_def)
  have h3: "word_tokenize env0 ''i like play football.'' = [''i'', ''like'', ''play'', ''football'', ''.'']"
    by code_simp
  have h4: "textblob_correct env0 ''I like play football.'' = ''I like play football.''"
    by (simp add: env0_def)
  have h5: "grammar_model env0 = None" by (simp add: env0_def)
  have h6: "\<not> is_ai_available env0" by (simp add: is_ai_available_def env0_def)
  from missing_infinitive_not_found [OF h1 h2 h3 h4 h5 h6, of True True]
  show ?thesis using h1 h2 h3 h4 h5 h6 by simp
qed

section \<open>Correcting a corrected text\<close>

lemma css_hello:
  assumes "nlp env = None"
    and "sent_tokenize env ''hello'' = [''hello'']"
    and "word_tokenize env ''hello'' = [''hello'']"
    and "textblob_correct env ''hello'' = ''hello''"
  shows "correct_sentence_structure env ''hello'' =
           Inr \<lparr>s_original = ''hello'', s_corrected = ''Hello.'',
                s_changes = [structure_change ''hello'' ''Hello.'' [''sentence_fragment'']],
                s_structure_errors = Some
                  [structure_finding ''sentence_fragment'' ''Sentence appears incomplete''
                     ''hello'' ''high'' ''Complete the sentence with a subject and verb'']\<rparr>"
proof -
  let ?s = "''hello''"
  let ?e = "structure_finding ''sentence_fragment'' ''Sentence appears incomplete'' ?s ''high''
              ''Complete the sentence with a subject and verb''"
  let ?k = "\<lparr>k_original = ?s, k_corrected = ''Hello.'', k_errors = [''sentence_fragment'']\<rparr>"
  have nb: "\<not> blank ?s" by code_simp
  have st: "strip ?s = ?s" by code_simp
  have lo: "lower ?s = ?s" by code_simp
  have rb0: "rulebased [''hello''] ?s = Inr [?e]" by code_simp
  have rb: "rulebased (word_tokenize env (lower ?s)) ?s = Inr [?e]"
    by (simp only: lo assms(3) rb0)
  have gl: "gsc_loop ?s (sort_desc (filter (\<lambda>e. f_sentence e = Some ?s) [?e])) ?s = Inr ?s"
    by code_simp
  have no: "normalize_text ?s = ''Hello.''" by code_simp
  have ge: "generate_structure_correction env ?s [?e] = Inr ''Hello.''"
    unfolding generate_structure_correction_def Let_def gl
    by (simp only: assms(4) no sum.case if_True if_False simp_thms)
  have an: "analyze_sentence_structure env ?s = Inr ([?e], [?k])"
    unfolding analyze_single [OF nb st assms(1) assms(2) rb] ge
    by (simp add: structure_finding_def)
  have ap: "apply_corrections [?k] ?s [] =
              (''Hello.'', [structure_change ?s ''Hello.'' [''sentence_fragment'']])"
    by code_simp
  show ?thesis
    unfolding css_unfold [OF nb an] ap by simp
qed

lemma css_hello_again:
  assumes "nlp env = None"
    and "sent_tokenize env ''Hello.'' = [''Hello.'']"
    and "word_tokenize env ''hello.'' = [''hello'', ''.'']"
    and "textblob_correct env ''Hello.'' = ''Hello.''"
  shows "correct_sentence_structure env ''Hello.'' =
           Inr \<lparr>s_original = ''Hello.'',
                s_corrected = ''Complete the sentence with a subject and verb'',
                s_changes = [structure_change ''Hello.''
                               ''Complete the sentence with a subject and verb''
                               [''sentence_fragment'']],
                s_structure_errors = Some
                  [structure_finding ''sentence_fragment'' ''Sentence appears incomplete''
                     ''Hello.'' ''high'' ''Complete the sentence with a subject and verb'']\<rparr>"
proof -
  let ?s = "''Hello.''"
  let ?a = "''Complete the sentence with a subject and verb''"
  let ?e = "structure_finding ''sentence_fragment'' ''Sentence appears incomplete'' ?s ''high'' ?a"
  have nb: "\<not> blank ?s" by code_simp
  have st: "strip ?s = ?s" by code_simp
  have lo: "lower ?s = ''hello.''" by code_simp
  have rb0: "rulebased [''hello'', ''.''] ?s = Inr [?e]" by code_simp
  have rb: "rulebased (word_tokenize env (lower ?s)) ?s = Inr [?e]"
    by (simp only: lo assms(3) rb0)
  have gl: "gsc_loop ?s (sort_desc (filter (\<lambda>e. f_sentence e = Some ?s) [?e])) ?s = Inr ?s"
    by code_simp
  have no: "normalize_text ?s = ?s" by code_simp
  have ge: "generate_structure_correction env ?s [?e] = Inr ?s"
    unfolding generate_structure_correction_def Let_def gl
    by (simp only: assms(4) no sum.case if_True if_False simp_thms)
  have an: "analyze_sentence_structure env ?s = Inr ([?e], [])"
    unfolding analyze_single [OF nb st assms(1) assms(2) rb] ge
    by simp
  have ap: "apply_corrections [] ?s [] = (?s, [])" by code_simp
  have pk: "pick_error [?e] = Some ?e" by code_simp
  have ic: "intelligent_correction ?s ?e = (?a, [structure_change ?s ?a [''sentence_fragment'']])"
    by code_simp
  show ?thesis
    unfolding css_unfold [OF nb an] ap by (simp add: pk ic)
qed

text \<open>
  The example of the text \<open>I am happy.\<close> is returned unchanged with the method tag
  \<open>none\<close>.
\<close>

lemma happy_unchanged:
  "correct_text env0 ''I am happy.'' True =
     \<lparr>t_original = ''I am happy.'', t_corrected = ''I am happy.'', t_method = ''none''\<rparr>"
  by code_simp

text \<open>
  Claim C2.  Correction is not idempotent.  Without a parser and a trained model, when
  the tokenizers keep \<open>hello\<close> and \<open>Hello.\<close> as one sentence each and the spelling
  corrector leaves both alone, \<^verbatim>\<open>correct_text\<close> turns \<open>hello\<close> into \<open>Hello.\<close>, and
  turns \<open>Hello.\<close> into the advice of the fragment finding,
  \<open>Complete the sentence with a subject and verb.\<close>
\<close>

theorem correction_not_idempotent:
  assumes "nlp env = None"
    and "sent_tokenize env ''hello'' = [''hello'']"
    and "sent_tokenize env ''Hello.'' = [''Hello.'']"
    and "word_tokenize env ''hello'' = [''hello'']"
    and "word_tokenize env ''hello.'' = [''hello'', ''.'']"
    and "textblob_correct env ''hello'' = ''hello''"
    and "textblob_correct env ''Hello.'' = ''Hello.''"
    and "grammar_model env = None"
  shows "correct_text env ''hello'' use_model =
           \<lparr>t_original = ''hello'', t_corrected = ''Hello.'', t_method = ''rule_based''\<rparr>
         \<and> correct_text env (t_corrected (correct_text env ''hello'' use_model)) use_model =
             \<lparr>t_original = ''Hello.'',
              t_corrected = ''Complete the sentence with a subject and verb.'',
              t_method = ''rule_based''\<rparr>"
proof -
  have nb1: "\<not> blank ''hello''" by code_simp
  have st1: "strip ''hello'' = ''hello''" by code_simp
  have no1: "normalize_text ''Hello.'' = ''Hello.''" by code_simp
  have nb2: "\<not> blank ''Hello.''" by code_simp
  have st2: "strip ''Hello.'' = ''Hello.''" by code_simp
  have no2: "normalize_text ''Complete the sentence with a subject and verb''
               = ''Complete the sentence with a subject and verb.''" by code_simp
  have 1: "correct_text env ''hello'' use_model =
             \<lparr>t_original = ''hello'', t_corrected = ''Hello.'', t_method = ''rule_based''\<rparr>"
    unfolding correct_text_no_model [OF nb1 st1 assms(8)]
    by (simp add: rule_based_text_def css_hello [OF assms(1,2,4,6)] no1)
  have 2: "correct_text env ''Hello.'' use_model =
             \<lparr>t_original = ''Hello.'',
              t_corrected = ''Complete the sentence with a subject and verb.'',
              t_method = ''rule_based''\<rparr>"
    unfolding correct_text_no_model [OF nb2 st2 assms(8)]
    by (simp add: rule_based_text_def css_hello_again [OF assms(1,3,5,7)] no2)
  from 1 2 show ?thesis by simp
qed

theorem correction_not_idempotent_witness:
  "nlp env0 = None
   \<and> sent_tokenize env0 ''hello'' = [''hello'']
   \<and> sent_tokenize env0 ''Hello.'' = [''Hello.'']
   \<and> word_tokenize env0 ''hello'' = [''hello'']
   \<and> word_tokenize env0 ''hello.'' = [''hello'', ''.'']
   \<and> textblob_correct env0 ''hello'' = ''hello''
   \<and> textblob_correct env0 ''Hello.'' = ''Hello.''
   \<and> grammar_model env0 = None
   \<and> t_corrected (correct_text env0 (t_corrected (correct_text env0 ''hello'' True)) True)
       \<noteq> t_corrected (correct_text env0 ''hello'' True)"
proof -
  have h1: "nlp env0 = None" by (simp add: env0_def)
  have h2: "sent_tokenize env0 ''hello'' = [''hello'']" by (simp add: env0_def)
  have h3: "sent_tokenize env0 ''Hello.'' = [''Hello.'']" by (simp add: env0_def)
  have h4: "word_tokenize env0 ''hello'' = [''hello'']" by code_simp
  have h5: "word_tokenize env0 ''hello.'' = [''hello'', ''.'']" by code_simp
  have h6: "textblob_correct env0 ''hello'' = ''hello''" by (simp add: env0_def)
  have h7: "textblob_correct env0 ''Hello.'' = ''Hello.''" by (simp add: env0_def)
  have h8: "grammar_model env0 = None" by (simp add: env0_def)
  note r = correction_not_idempotent [OF h1 h2 h3 h4 h5 h6 h7 h8, of True]
  have a: "t_corrected (correct_text env0 ''hello'' True) = ''Hello.''"
    by (simp only: conjunct1 [OF r] text_result.simps)
  have b: "t_corrected (correct_text env0 (t_corrected (correct_text env0 ''hello'' True)) True)
             = ''Complete the sentence with a subject and verb.''"
    by (simp only: conjunct2 [OF r] text_result.simps)
  have "t_corrected (correct_text env0 (t_corrected (correct_text env0 ''hello'' True)) True)
          \<noteq> t_corrected (correct_text env0 ''hello'' True)"
    unfolding b unfolding a by simp
  with h1 h2 h3 h4 h5 h6 h7 h8 show ?thesis by blast
qed

section \<open>Applying the fragment edits\<close>

text \<open>
  A fragment edit replaces the first occurrence of the finding's text, wherever the
  finding was found: the first \<open>loose\<close> of this text is inside \<open>looser\<close>.
\<close>

lemma first_occurrence_of_loose:
  "replace1 ''loose'' ''X'' ''I am looser I loo a loose one.'' = ''I am Xr I loo a loose one.''"
  by code_simp

text \<open>
  Claim C4.  The fragment edits do not stay at their offsets.  For the text
  \<open>I am looser I loo a loose one.\<close>, with a spelling corrector that proposes \<open>too\<close>
  for \<open>loo\<close>, the findings are \<open>loose\<close> at offsets 20 to 25 and \<open>loo\<close> at offsets
  5 to 8.  The edit of the later finding is applied first, but to the first \<open>loose\<close>
  of the text, at offset 5 inside \<open>looser\<close>; the edit of the earlier finding then
  falls into the inserted advice, whose \<open>'loose'\<close> becomes \<open>'toose'\<close>.  The words at
  the two offsets, \<open>loo\<close> and \<open>loose\<close>, are both still in the result.
\<close>

theorem fragment_substitution_misplaced:
  "detect_grammar_errors env_spell ''I am looser I loo a loose one.'' =
     Inr [lexical_finding ''common_mistake'' ''Check 'loose' (not tight) vs 'lose' (misplace)''
            20 25 ''loose''
            ''Use 'lose' when you misplace something, 'loose' when something is not tight''
            ''medium'',
          lexical_finding ''spelling'' (''Possible spelling error: 'loo'' @ [sq])
            5 8 ''loo'' ''too'' ''medium'']
   \<and> map_sum id g_corrected (correct_grammar env_spell ''I am looser I loo a loose one.'' True) =
       Inr (''I am Use 'lose' when you misplace something, 'toose' when something is not tightr''
            @ '' I loo a loose one.'')"
  by code_simp

end
